theory Spec2Isabelle
  imports Complex_Main "HOL-Library.Multiset"
begin

section \<open>float64 arithmetic\<close>

text \<open>
  Go's \<^verbatim>\<open>float64\<close> is IEEE 754 binary64. A finite value is kept as its sign and its
  magnitude, an exact rational (so \<open>Finite True 0\<close> is the negative zero), next to the two
  infinities and one NaN (payloads are not distinguished). Every operation computes the
  exact result and rounds it once, to nearest with ties to even: 53 bits of mantissa,
  exponents of the unit in the last place from \<open>-1074\<close> (subnormals) to \<open>971\<close>, overflow
  to an infinity. The model rounds after each operation; Go also allows a compiler to fuse
  \<^verbatim>\<open>c*1.8 + 32\<close> into one rounding on some architectures, which is noted where a
  result depends on it.
\<close>

datatype float64 = Finite bool rat | Infinite bool | NaN

definition pow2 :: "int \<Rightarrow> rat" where
  "pow2 e = (if 0 \<le> e then 2 ^ nat e else 1 / 2 ^ nat (- e))"

text \<open>\<open>ilog2 lo hi x\<close> is the \<open>e\<close> in \<open>[lo, hi)\<close> with \<open>2^e \<le> x < 2^(e+1)\<close>, found by
  bisection (\<open>lo\<close> when \<open>x\<close> lies below the range).\<close>

function ilog2 :: "int \<Rightarrow> int \<Rightarrow> rat \<Rightarrow> int" where
  "ilog2 lo hi x =
     (if hi \<le> lo + 1 then lo
      else if pow2 ((lo + hi) div 2) \<le> x then ilog2 ((lo + hi) div 2) hi x
      else ilog2 lo ((lo + hi) div 2) x)"
  by pat_completeness auto
termination
  by (relation "measure (\<lambda>(lo, hi, x). nat (hi - lo))") auto

definition nearest_even :: "rat \<Rightarrow> int" where
  "nearest_even q =
     (let m = \<lfloor>q\<rfloor>; r = q - of_int m
      in if r < 1 / 2 then m else if 1 / 2 < r then m + 1
         else if even m then m else m + 1)"

text \<open>\<open>round64 s x\<close> rounds the magnitude \<open>x \<ge> 0\<close> with sign \<open>s\<close> to a float64.\<close>

definition round64 :: "bool \<Rightarrow> rat \<Rightarrow> float64" where
  "round64 s x =
     (if x = 0 then Finite s 0
      else if pow2 1024 \<le> x then Infinite s
      else let e = ilog2 (- 1022) 1024 x - 52;
               y = of_int (nearest_even (x / pow2 e)) * pow2 e
           in if pow2 1024 \<le> y then Infinite s else Finite s y)"

text \<open>A constant of the source (\<^verbatim>\<open>273.15\<close>, \<^verbatim>\<open>1.8\<close>, \<^verbatim>\<open>32\<close>, \<^verbatim>\<open>0.0\<close>) is the
  float64 nearest to it; \<^verbatim>\<open>float64(len(w))\<close> converts an integer the same way.\<close>

definition f64 :: "rat \<Rightarrow> float64" where
  "f64 x = round64 (x < 0) \<bar>x\<bar>"

definition f64_of_nat :: "nat \<Rightarrow> float64" where
  "f64_of_nat n = f64 (of_nat n)"

definition val :: "bool \<Rightarrow> rat \<Rightarrow> rat" where
  "val s m = (if s then - m else m)"

fun fadd :: "float64 \<Rightarrow> float64 \<Rightarrow> float64" where
  "fadd NaN b = NaN"
| "fadd a NaN = NaN"
| "fadd (Infinite s) (Infinite t) = (if s = t then Infinite s else NaN)"
| "fadd (Infinite s) (Finite t y) = Infinite s"
| "fadd (Finite s x) (Infinite t) = Infinite t"
| "fadd (Finite s x) (Finite t y) =
     (let r = val s x + val t y
      in if r = 0 then Finite (s \<and> t) 0 else round64 (r < 0) \<bar>r\<bar>)"

fun fneg :: "float64 \<Rightarrow> float64" where
  "fneg NaN = NaN"
| "fneg (Infinite s) = Infinite (\<not> s)"
| "fneg (Finite s x) = Finite (\<not> s) x"

definition fsub :: "float64 \<Rightarrow> float64 \<Rightarrow> float64" where
  "fsub a b = fadd a (fneg b)"

fun fmul :: "float64 \<Rightarrow> float64 \<Rightarrow> float64" where
  "fmul NaN b = NaN"
| "fmul a NaN = NaN"
| "fmul (Infinite s) (Infinite t) = Infinite (s \<noteq> t)"
| "fmul (Infinite s) (Finite t y) = (if y = 0 then NaN else Infinite (s \<noteq> t))"
| "fmul (Finite s x) (Infinite t) = (if x = 0 then NaN else Infinite (s \<noteq> t))"
| "fmul (Finite s x) (Finite t y) = round64 (s \<noteq> t) (x * y)"

fun fdiv :: "float64 \<Rightarrow> float64 \<Rightarrow> float64" where
  "fdiv NaN b = NaN"
| "fdiv a NaN = NaN"
| "fdiv (Infinite s) (Infinite t) = NaN"
| "fdiv (Infinite s) (Finite t y) = Infinite (s \<noteq> t)"
| "fdiv (Finite s x) (Infinite t) = Finite (s \<noteq> t) 0"
| "fdiv (Finite s x) (Finite t y) =
     (if y = 0 then (if x = 0 then NaN else Infinite (s \<noteq> t))
      else round64 (s \<noteq> t) (x / y))"

section \<open>Errors and provider outcomes\<close>

text \<open>
  The error values of the program, by where they are made: \<open>UrlError\<close> is what
  \<^verbatim>\<open>http.Get\<close> returns when the request fails; \<open>BodyError\<close> is what
  \<^verbatim>\<open>Decode\<close> returns when no JSON value can be read from the body (a syntax error, an
  empty or truncated body, a failed read); \<open>UnmarshalTypeError\<close> is what it returns when a
  JSON value does not fit the Go type it is decoded into (the string names the JSON value).
  A call of a function that returns \<^verbatim>\<open>(x, error)\<close> has one of three outcomes:
  \<open>Ok x\<close> for \<^verbatim>\<open>(x, nil)\<close>, \<open>Err e\<close> for \<^verbatim>\<open>(0, e)\<close>, and \<open>Panic\<close> for a
  run-time panic, which nothing in the program recovers.
\<close>

datatype error = UrlError string | BodyError string | UnmarshalTypeError string

datatype 'a outcome = Ok 'a | Err error | Panic string

fun upstream_error :: "error \<Rightarrow> bool" where
  "upstream_error (UrlError m) = True"
| "upstream_error e = False"

fun decode_error :: "error \<Rightarrow> bool" where
  "decode_error (UrlError m) = False"
| "decode_error e = True"

text \<open>\<^verbatim>\<open>type weatherProvider interface { temperature(city string) (float64, error) }\<close>\<close>

type_synonym weatherProvider = "string \<Rightarrow> float64 outcome"

type_synonym multiWeatherProvider = "weatherProvider list"

section \<open>The concurrent aggregator\<close>

text \<open>
  \<^verbatim>\<open>multiWeatherProvider.temperature\<close> starts one goroutine per provider and then
  collects \<^verbatim>\<open>len(w)\<close> values with a \<^verbatim>\<open>select\<close> over the two channels. Both channels
  are buffered with capacity \<^verbatim>\<open>len(w)\<close> and every goroutine sends once, so a send never
  blocks. What is not determined by the code is the order of events; a run is therefore a
  list of events, the schedule:
  \<^item> \<open>Finish p\<close>: the goroutine of provider \<open>p\<close> gets its outcome and puts it on
    \<^verbatim>\<open>temps\<close> or on \<^verbatim>\<open>errs\<close>, or panics, which ends the process;
  \<^item> \<open>RecvTemp\<close>: the \<^verbatim>\<open>select\<close> takes the first value waiting on \<^verbatim>\<open>temps\<close>;
  \<^item> \<open>RecvErr\<close>: the \<^verbatim>\<open>select\<close> takes the first value waiting on \<^verbatim>\<open>errs\<close> and
    the function returns it.
  When both channels hold a value, Go's \<^verbatim>\<open>select\<close> may take either, as the schedule may.
  A provider that is never in the schedule is one that has not answered.
\<close>

datatype event = Finish nat | RecvTemp | RecvErr

text \<open>
  The state of a call: the two channels \<^verbatim>\<open>temps\<close> and \<^verbatim>\<open>errs\<close> (the values sent
  and not yet taken, oldest first), the loop counter \<^verbatim>\<open>i\<close> (\<open>iter\<close>), the variable
  \<^verbatim>\<open>sum\<close> (\<open>sum_f\<close>), the error with which the call has left the loop, if it has,
  and whether a panic has ended the process. \<open>finished\<close> records the goroutines that have
  finished, in the order in which they did.
\<close>

record collector =
  finished :: "nat list"
  temps :: "float64 list"
  errs :: "error list"
  iter :: nat
  sum_f :: float64
  returned_err :: "error option"
  crashed :: bool

definition init :: collector where
  "init = \<lparr>finished = [], temps = [], errs = [], iter = 0, sum_f = f64 0,
            returned_err = None, crashed = False\<rparr>"

text \<open>The function sits at the \<^verbatim>\<open>select\<close> while \<^verbatim>\<open>i < len(w)\<close> and it has not returned.\<close>

definition selecting :: "nat \<Rightarrow> collector \<Rightarrow> bool" where
  "selecting n s = (returned_err s = None \<and> iter s < n)"

definition step :: "float64 outcome list \<Rightarrow> event \<Rightarrow> collector \<Rightarrow> collector option" where
  "step outs ev s =
     (if crashed s then None
      else case ev of
        Finish p \<Rightarrow>
          if p < length outs \<and> p \<notin> set (finished s) then
            (case outs ! p of
               Ok k \<Rightarrow> Some (s\<lparr>finished := finished s @ [p], temps := temps s @ [k]\<rparr>)
             | Err e \<Rightarrow> Some (s\<lparr>finished := finished s @ [p], errs := errs s @ [e]\<rparr>)
             | Panic m \<Rightarrow> Some (s\<lparr>finished := finished s @ [p], crashed := True\<rparr>))
          else None
      | RecvTemp \<Rightarrow>
          if selecting (length outs) s then
            (case temps s of
               [] \<Rightarrow> None
             | temp # rest \<Rightarrow>
                 Some (s\<lparr>temps := rest, sum_f := fadd (sum_f s) temp, iter := Suc (iter s)\<rparr>))
          else None
      | RecvErr \<Rightarrow>
          if selecting (length outs) s then
            (case errs s of
               [] \<Rightarrow> None
             | err # rest \<Rightarrow> Some (s\<lparr>errs := rest, returned_err := Some err\<rparr>))
          else None)"

fun run :: "float64 outcome list \<Rightarrow> event list \<Rightarrow> collector \<Rightarrow> collector option" where
  "run outs [] s = Some s"
| "run outs (ev # evs) s =
     (case step outs ev s of None \<Rightarrow> None | Some s' \<Rightarrow> run outs evs s')"

text \<open>
  What the call has returned in a state, if it has: the error taken from \<^verbatim>\<open>errs\<close>
  (\<^verbatim>\<open>return 0, err\<close>), or after \<open>n\<close> temperatures the average converted to Fahrenheit.
\<close>

definition result :: "nat \<Rightarrow> collector \<Rightarrow> (error + float64) option" where
  "result n s =
     (case returned_err s of
        Some err \<Rightarrow> Some (Inl err)
      | None \<Rightarrow>
          if iter s = n then
            (let avg = fdiv (sum_f s) (f64_of_nat n);
                 c = fsub avg (f64 (27315 / 100));
                 f = fadd (fmul c (f64 (18 / 10))) (f64 32)
             in Some (Inr f))
          else None)"

text \<open>What each provider of \<open>w\<close> answers for the city, in the order of declaration.\<close>

definition outcomes :: "multiWeatherProvider \<Rightarrow> string \<Rightarrow> float64 outcome list" where
  "outcomes w city = map (\<lambda>p. p city) w"

text \<open>The call under a schedule: \<open>None\<close> when the schedule cannot happen or leaves the
  call waiting at the \<^verbatim>\<open>select\<close>.\<close>

definition multiWeatherProvider_temperature ::
    "multiWeatherProvider \<Rightarrow> string \<Rightarrow> event list \<Rightarrow> (error + float64) option" where
  "multiWeatherProvider_temperature w city sched =
     (case run (outcomes w city) sched init of
        None \<Rightarrow> None
      | Some s \<Rightarrow> result (length w) s)"

text \<open>Nothing more can happen in a state: every goroutine has finished and the
  \<^verbatim>\<open>select\<close> can take nothing.\<close>

definition quiescent :: "float64 outcome list \<Rightarrow> collector \<Rightarrow> bool" where
  "quiescent outs s =
     list_all (\<lambda>ev. step outs ev s = None)
       (RecvTemp # RecvErr # map Finish [0..<length outs])"

text \<open>The temperatures and the errors sent by the goroutines \<open>ps\<close>, in that order.\<close>

fun sent_temps :: "float64 outcome list \<Rightarrow> nat list \<Rightarrow> float64 list" where
  "sent_temps outs [] = []"
| "sent_temps outs (p # ps) =
     (case outs ! p of Ok k \<Rightarrow> k # sent_temps outs ps | _ \<Rightarrow> sent_temps outs ps)"

fun sent_errs :: "float64 outcome list \<Rightarrow> nat list \<Rightarrow> error list" where
  "sent_errs outs [] = []"
| "sent_errs outs (p # ps) =
     (case outs ! p of Err e \<Rightarrow> e # sent_errs outs ps | _ \<Rightarrow> sent_errs outs ps)"

text \<open>For the statements: whether an outcome is a success, and its value if it is.\<close>

fun is_Ok :: "'a outcome \<Rightarrow> bool" where
  "is_Ok (Ok k) = True"
| "is_Ok r = False"

fun the_Ok :: "float64 outcome \<Rightarrow> float64" where
  "the_Ok (Ok k) = k"
| "the_Ok r = NaN"

section \<open>The network and the JSON decoder\<close>

text \<open>
  What lies outside the program is a parameter of the model. \<open>http_Get env url\<close> is what
  \<^verbatim>\<open>http.Get(url)\<close> returns: the message of its error when the request fails, or
  else a response, whatever its status code (\<^verbatim>\<open>http.Get\<close> reports no error for a
  status that is not 2xx). The body of a response is the JSON value it spells, or the
  message of the error that \<^verbatim>\<open>Decode\<close> gives when it can read no JSON value from it.
  \<open>fmt_Sprint env\<close> is \<^verbatim>\<open>fmt.Sprint\<close> on a float64. Logging and the closing of
  the body have no part in the results and are left out.
\<close>

datatype json =
  JNull | JBool bool | JNum bool rat | JStr string | JArr "json list"
  | JObj "(string \<times> json) list"

datatype body = Malformed string | Json json

record response =
  StatusCode :: nat
  Body :: body

record env =
  http_Get :: "string \<Rightarrow> string + response"
  fmt_Sprint :: "float64 \<Rightarrow> string"

text \<open>
  \<^verbatim>\<open>encoding/json\<close>, as far as the program uses it. A number \<open>JNum s x\<close> has the sign
  \<open>s\<close> and the magnitude \<open>x\<close> and decodes to the nearest float64, out of range being an
  error. \<^verbatim>\<open>null\<close> leaves a float64 or a struct as it is and makes a slice empty. An
  object is decoded member by member, in order; a member sets the field whose name
  equals its key up to case, and a key that names no field is skipped. A value of the
  wrong kind is an \<^verbatim>\<open>UnmarshalTypeError\<close>. (The decoder goes on after such an error
  and reports the first one at the end; the model stops at it, since every caller drops
  the decoded value when there is an error.)
\<close>

fun json_kind :: "json \<Rightarrow> string" where
  "json_kind JNull = ''null''"
| "json_kind (JBool b) = ''bool''"
| "json_kind (JNum s x) = ''number''"
| "json_kind (JStr x) = ''string''"
| "json_kind (JArr js) = ''array''"
| "json_kind (JObj kvs) = ''object''"

definition upper :: "char \<Rightarrow> char" where
  "upper c =
     (case map_of (zip ''abcdefghijklmnopqrstuvwxyz'' ''ABCDEFGHIJKLMNOPQRSTUVWXYZ'') c of
        Some u \<Rightarrow> u
      | None \<Rightarrow> c)"

text \<open>Names are compared after folding: ASCII letters to upper case, and the two other
  characters that fold to an ASCII letter, the Kelvin sign (UTF-8 \<open>E2 84 AA\<close>) to \<open>K\<close> and
  the long s (\<open>C5 BF\<close>) to \<open>S\<close>.\<close>

fun foldName :: "string \<Rightarrow> string" where
  "foldName [] = []"
| "foldName (c # cs) =
     (if c = CHR 0xE2 \<and> take 2 cs = [CHR 0x84, CHR 0xAA] then CHR ''K'' # foldName (drop 2 cs)
      else if c = CHR 0xC5 \<and> take 1 cs = [CHR 0xBF] then CHR ''S'' # foldName (drop 1 cs)
      else upper c # foldName cs)"

fun decode_float64 :: "json \<Rightarrow> float64 \<Rightarrow> error + float64" where
  "decode_float64 JNull cur = Inr cur"
| "decode_float64 (JNum s x) cur =
     (case round64 s \<bar>x\<bar> of
        Infinite t \<Rightarrow> Inl (UnmarshalTypeError ''number'')
      | v \<Rightarrow> Inr v)"
| "decode_float64 j cur = Inl (UnmarshalTypeError (json_kind j))"

fun decode_members ::
    "(string \<Rightarrow> json \<Rightarrow> 'a \<Rightarrow> error + 'a) \<Rightarrow> (string \<times> json) list \<Rightarrow> 'a \<Rightarrow> error + 'a" where
  "decode_members field [] d = Inr d"
| "decode_members field ((k, v) # kvs) d =
     (case field k v d of Inl e \<Rightarrow> Inl e | Inr d' \<Rightarrow> decode_members field kvs d')"

fun decode_struct ::
    "(string \<Rightarrow> json \<Rightarrow> 'a \<Rightarrow> error + 'a) \<Rightarrow> json \<Rightarrow> 'a \<Rightarrow> error + 'a" where
  "decode_struct field JNull d = Inr d"
| "decode_struct field (JObj kvs) d = decode_members field kvs d"
| "decode_struct field j d = Inl (UnmarshalTypeError (json_kind j))"

fun decode_elements :: "(json \<Rightarrow> error + 'a) \<Rightarrow> json list \<Rightarrow> error + 'a list" where
  "decode_elements elem [] = Inr []"
| "decode_elements elem (j # js) =
     (case elem j of
        Inl e \<Rightarrow> Inl e
      | Inr x \<Rightarrow> (case decode_elements elem js of Inl e \<Rightarrow> Inl e | Inr xs \<Rightarrow> Inr (x # xs)))"

fun decode_slice :: "(json \<Rightarrow> error + 'a) \<Rightarrow> json \<Rightarrow> error + 'a list" where
  "decode_slice elem JNull = Inr []"
| "decode_slice elem (JArr js) = decode_elements elem js"
| "decode_slice elem j = Inl (UnmarshalTypeError (json_kind j))"

text \<open>\<^verbatim>\<open>json.NewDecoder(resp.Body).Decode(&d)\<close>, with \<open>d\<close> at its zero value.\<close>

definition Decode :: "(json \<Rightarrow> 'a \<Rightarrow> error + 'a) \<Rightarrow> body \<Rightarrow> 'a \<Rightarrow> error + 'a" where
  "Decode dec b d =
     (case b of Malformed m \<Rightarrow> Inl (BodyError m) | Json j \<Rightarrow> dec j d)"

section \<open>The providers\<close>

text \<open>The three provider types; \<open>owm_apiKey\<close>, \<open>wu_apiKey\<close> and \<open>ds_apiKey\<close> are the
  field \<^verbatim>\<open>apiKey\<close> of each. A provider's method \<^verbatim>\<open>temperature\<close> takes the network
  as its first argument.\<close>

record openWeatherMap =
  owm_apiKey :: string

record weatherUnderground =
  wu_apiKey :: string

record darkSky =
  ds_apiKey :: string
  googleKey :: string

subsection \<open>openWeatherMap\<close>

text \<open>\<^verbatim>\<open>var d struct { Main struct { Kelvin float64 `json:"temp"` } `json:"main"` }\<close>\<close>

record owm_Main =
  Kelvin :: float64

record owm_d =
  Main :: owm_Main

definition owm_Main_field :: "string \<Rightarrow> json \<Rightarrow> owm_Main \<Rightarrow> error + owm_Main" where
  "owm_Main_field k v d =
     (if foldName k = foldName ''temp''
      then (case decode_float64 v (Kelvin d) of Inl e \<Rightarrow> Inl e | Inr x \<Rightarrow> Inr (d\<lparr>Kelvin := x\<rparr>))
      else Inr d)"

definition owm_d_field :: "string \<Rightarrow> json \<Rightarrow> owm_d \<Rightarrow> error + owm_d" where
  "owm_d_field k v d =
     (if foldName k = foldName ''main''
      then (case decode_struct owm_Main_field v (Main d) of
              Inl e \<Rightarrow> Inl e
            | Inr x \<Rightarrow> Inr (d\<lparr>Main := x\<rparr>))
      else Inr d)"

definition owm_Decode :: "body \<Rightarrow> error + owm_d" where
  "owm_Decode b = Decode (decode_struct owm_d_field) b \<lparr>Main = \<lparr>Kelvin = f64 0\<rparr>\<rparr>"

definition owm_url :: "openWeatherMap \<Rightarrow> string \<Rightarrow> string" where
  "owm_url w city =
     ''http://api.openweathermap.org/data/2.5/weather?APPID='' @ owm_apiKey w @ ''&q='' @ city"

definition openWeatherMap_temperature ::
    "env \<Rightarrow> openWeatherMap \<Rightarrow> string \<Rightarrow> float64 outcome" where
  "openWeatherMap_temperature env w city =
     (case http_Get env (owm_url w city) of
        Inl err \<Rightarrow> Err (UrlError err)
      | Inr resp \<Rightarrow>
          (case owm_Decode (Body resp) of
             Inl err \<Rightarrow> Err err
           | Inr d \<Rightarrow> Ok (Kelvin (Main d))))"

subsection \<open>weatherUnderground\<close>

text \<open>\<^verbatim>\<open>var d struct { Observation struct { Celsius float64 `json:"temp_c"` }
  `json:"current_observation"` }\<close>\<close>

record wu_Observation =
  Celsius :: float64

record wu_d =
  Observation :: wu_Observation

definition wu_Observation_field ::
    "string \<Rightarrow> json \<Rightarrow> wu_Observation \<Rightarrow> error + wu_Observation" where
  "wu_Observation_field k v d =
     (if foldName k = foldName ''temp_c''
      then (case decode_float64 v (Celsius d) of Inl e \<Rightarrow> Inl e | Inr x \<Rightarrow> Inr (d\<lparr>Celsius := x\<rparr>))
      else Inr d)"

definition wu_d_field :: "string \<Rightarrow> json \<Rightarrow> wu_d \<Rightarrow> error + wu_d" where
  "wu_d_field k v d =
     (if foldName k = foldName ''current_observation''
      then (case decode_struct wu_Observation_field v (Observation d) of
              Inl e \<Rightarrow> Inl e
            | Inr x \<Rightarrow> Inr (d\<lparr>Observation := x\<rparr>))
      else Inr d)"

definition wu_Decode :: "body \<Rightarrow> error + wu_d" where
  "wu_Decode b = Decode (decode_struct wu_d_field) b \<lparr>Observation = \<lparr>Celsius = f64 0\<rparr>\<rparr>"

definition wu_url :: "weatherUnderground \<Rightarrow> string \<Rightarrow> string" where
  "wu_url w city =
     ''http://api.wunderground.com/api/'' @ wu_apiKey w @ ''/conditions/q/'' @ city @ ''.json''"

definition weatherUnderground_temperature ::
    "env \<Rightarrow> weatherUnderground \<Rightarrow> string \<Rightarrow> float64 outcome" where
  "weatherUnderground_temperature env w city =
     (case http_Get env (wu_url w city) of
        Inl err \<Rightarrow> Err (UrlError err)
      | Inr resp \<Rightarrow>
          (case wu_Decode (Body resp) of
             Inl err \<Rightarrow> Err err
           | Inr d \<Rightarrow>
               (let kelvin = fadd (Celsius (Observation d)) (f64 (27315 / 100))
                in Ok kelvin)))"

subsection \<open>darkSky\<close>

text \<open>\<^verbatim>\<open>var g struct { Results []struct { Geometry struct { Location struct
  { Lat float64; Lng float64 } } } }\<close>; the fields have no tag and go by their names.\<close>

record g_Location =
  Lat :: float64
  Lng :: float64

record g_Geometry =
  Location :: g_Location

record g_Result =
  Geometry :: g_Geometry

record g =
  Results :: "g_Result list"

definition g_Location_field :: "string \<Rightarrow> json \<Rightarrow> g_Location \<Rightarrow> error + g_Location" where
  "g_Location_field k v d =
     (if foldName k = foldName ''Lat''
      then (case decode_float64 v (Lat d) of Inl e \<Rightarrow> Inl e | Inr x \<Rightarrow> Inr (d\<lparr>Lat := x\<rparr>))
      else if foldName k = foldName ''Lng''
      then (case decode_float64 v (Lng d) of Inl e \<Rightarrow> Inl e | Inr x \<Rightarrow> Inr (d\<lparr>Lng := x\<rparr>))
      else Inr d)"

definition g_Geometry_field :: "string \<Rightarrow> json \<Rightarrow> g_Geometry \<Rightarrow> error + g_Geometry" where
  "g_Geometry_field k v d =
     (if foldName k = foldName ''Location''
      then (case decode_struct g_Location_field v (Location d) of
              Inl e \<Rightarrow> Inl e
            | Inr x \<Rightarrow> Inr (d\<lparr>Location := x\<rparr>))
      else Inr d)"

definition g_Result_field :: "string \<Rightarrow> json \<Rightarrow> g_Result \<Rightarrow> error + g_Result" where
  "g_Result_field k v d =
     (if foldName k = foldName ''Geometry''
      then (case decode_struct g_Geometry_field v (Geometry d) of
              Inl e \<Rightarrow> Inl e
            | Inr x \<Rightarrow> Inr (d\<lparr>Geometry := x\<rparr>))
      else Inr d)"

definition g_Result_zero :: g_Result where
  "g_Result_zero = \<lparr>Geometry = \<lparr>Location = \<lparr>Lat = f64 0, Lng = f64 0\<rparr>\<rparr>\<rparr>"

definition g_field :: "string \<Rightarrow> json \<Rightarrow> g \<Rightarrow> error + g" where
  "g_field k v d =
     (if foldName k = foldName ''Results''
      then (case decode_slice (\<lambda>j. decode_struct g_Result_field j g_Result_zero) v of
              Inl e \<Rightarrow> Inl e
            | Inr xs \<Rightarrow> Inr (d\<lparr>Results := xs\<rparr>))
      else Inr d)"

text \<open>\<^verbatim>\<open>xs[i]\<close>: out of range it panics; here it is \<open>None\<close>.\<close>

definition index :: "'a list \<Rightarrow> nat \<Rightarrow> 'a option" where
  "index xs i = (if i < length xs then Some (xs ! i) else None)"

definition g_Decode :: "body \<Rightarrow> error + g" where
  "g_Decode b = Decode (decode_struct g_field) b \<lparr>Results = []\<rparr>"

definition geocode_url :: "string \<Rightarrow> string \<Rightarrow> string" where
  "geocode_url city key =
     ''https://maps.googleapis.com/maps/api/geocode/json?address='' @ city @ ''&key='' @ key"

definition darkSky_getCoords ::
    "env \<Rightarrow> darkSky \<Rightarrow> string \<Rightarrow> string \<Rightarrow> (float64 \<times> float64) outcome" where
  "darkSky_getCoords env w city key =
     (case http_Get env (geocode_url city key) of
        Inl err \<Rightarrow> Err (UrlError err)
      | Inr res \<Rightarrow>
          (case g_Decode (Body res) of
             Inl err \<Rightarrow> Err err
           | Inr g \<Rightarrow>
               (case index (Results g) 0 of
                  None \<Rightarrow> Panic ''index out of range [0] with length 0''
                | Some r \<Rightarrow>
                    (let lat = Lat (Location (Geometry r));
                         lon = Lng (Location (Geometry r))
                     in Ok (lat, lon)))))"

text \<open>\<^verbatim>\<open>var d struct { Currently struct { Temperature float64 } }\<close>\<close>

record ds_Currently =
  Temperature :: float64

record ds_d =
  Currently :: ds_Currently

definition ds_Currently_field ::
    "string \<Rightarrow> json \<Rightarrow> ds_Currently \<Rightarrow> error + ds_Currently" where
  "ds_Currently_field k v d =
     (if foldName k = foldName ''Temperature''
      then (case decode_float64 v (Temperature d) of
              Inl e \<Rightarrow> Inl e
            | Inr x \<Rightarrow> Inr (d\<lparr>Temperature := x\<rparr>))
      else Inr d)"

definition ds_d_field :: "string \<Rightarrow> json \<Rightarrow> ds_d \<Rightarrow> error + ds_d" where
  "ds_d_field k v d =
     (if foldName k = foldName ''Currently''
      then (case decode_struct ds_Currently_field v (Currently d) of
              Inl e \<Rightarrow> Inl e
            | Inr x \<Rightarrow> Inr (d\<lparr>Currently := x\<rparr>))
      else Inr d)"

definition ds_Decode :: "body \<Rightarrow> error + ds_d" where
  "ds_Decode b = Decode (decode_struct ds_d_field) b \<lparr>Currently = \<lparr>Temperature = f64 0\<rparr>\<rparr>"

definition ds_url :: "darkSky \<Rightarrow> string \<Rightarrow> string \<Rightarrow> string" where
  "ds_url w lat lon =
     ''https://api.darksky.net/forecast/'' @ ds_apiKey w @ ''/'' @ lat @ '','' @ lon
       @ ''?exclude=minutely,hourly,daily,alerts,flags&units=si''"

definition darkSky_temperature :: "env \<Rightarrow> darkSky \<Rightarrow> string \<Rightarrow> float64 outcome" where
  "darkSky_temperature env w city =
     (case darkSky_getCoords env w city (googleKey w) of
        Err err \<Rightarrow> Err err
      | Panic m \<Rightarrow> Panic m
      | Ok (lattitude, longitude) \<Rightarrow>
          (let lat = fmt_Sprint env lattitude;
               lon = fmt_Sprint env longitude
           in case http_Get env (ds_url w lat lon) of
                Inl err \<Rightarrow> Err (UrlError err)
              | Inr resp \<Rightarrow>
                  (case ds_Decode (Body resp) of
                     Inl err \<Rightarrow> Err err
                   | Inr d \<Rightarrow>
                       (let kelvin = fadd (Temperature (Currently d)) (f64 (27315 / 100))
                        in Ok kelvin))))"

text \<open>For the claims: the same network with other status codes, and an object none of
  whose members sets a field, because its key is not the name of the outer field, or its
  value is \<^verbatim>\<open>null\<close> or an object with no key of the name of the inner field.\<close>

definition set_status :: "(nat \<Rightarrow> nat) \<Rightarrow> env \<Rightarrow> env" where
  "set_status f env =
     env\<lparr>http_Get := (\<lambda>url. case http_Get env url of
                              Inl err \<Rightarrow> Inl err
                            | Inr resp \<Rightarrow> Inr (resp\<lparr>StatusCode := f (StatusCode resp)\<rparr>))\<rparr>"

definition no_key :: "string \<Rightarrow> (string \<times> json) list \<Rightarrow> bool" where
  "no_key name kvs = list_all (\<lambda>(k, v). foldName k \<noteq> foldName name) kvs"

fun no_inner :: "string \<Rightarrow> json \<Rightarrow> bool" where
  "no_inner inner JNull = True"
| "no_inner inner (JObj kvs) = no_key inner kvs"
| "no_inner inner j = False"

definition lacks_field :: "string \<Rightarrow> string \<Rightarrow> (string \<times> json) list \<Rightarrow> bool" where
  "lacks_field outer inner kvs =
     list_all (\<lambda>(k, v). if foldName k = foldName outer then no_inner inner v else True) kvs"

section \<open>The sequential operation\<close>

text \<open>
  \<^verbatim>\<open>func temperature(city string, providers ...weatherProvider)\<close>. Beside the outcome
  the model returns the positions of the providers it has called, in the order of the
  calls; \<open>sm\<close> is the variable \<^verbatim>\<open>sum\<close>.
\<close>

fun range_providers ::
    "string \<Rightarrow> weatherProvider list \<Rightarrow> nat list \<Rightarrow> float64 \<Rightarrow> nat list \<times> float64 outcome" where
  "range_providers city [] called sm = (called, Ok sm)"
| "range_providers city (provider # rest) called sm =
     (case provider city of
        Ok k \<Rightarrow> range_providers city rest (called @ [length called]) (fadd sm k)
      | Err err \<Rightarrow> (called @ [length called], Err err)
      | Panic m \<Rightarrow> (called @ [length called], Panic m))"

definition temperature :: "string \<Rightarrow> weatherProvider list \<Rightarrow> nat list \<times> float64 outcome" where
  "temperature city providers =
     (case range_providers city providers [] (f64 0) of
        (called, Ok sm) \<Rightarrow> (called, Ok (fdiv sm (f64_of_nat (length providers))))
      | (called, Err err) \<Rightarrow> (called, Err err)
      | (called, Panic m) \<Rightarrow> (called, Panic m))"

section \<open>The provider set of the program\<close>

text \<open>\<^verbatim>\<open>main\<close> builds the one provider set of the program, with the keys it reads from
  the environment.\<close>

definition main_mw ::
    "env \<Rightarrow> string \<Rightarrow> string \<Rightarrow> string \<Rightarrow> string \<Rightarrow> multiWeatherProvider" where
  "main_mw env OPEN_WEATHER_MAP_KEY WEATHER_UNDERGROUND_KEY DARK_SKY_KEY GOOGLE_GEOCODE_KEY =
     [openWeatherMap_temperature env \<lparr>owm_apiKey = OPEN_WEATHER_MAP_KEY\<rparr>,
      weatherUnderground_temperature env \<lparr>wu_apiKey = WEATHER_UNDERGROUND_KEY\<rparr>,
      darkSky_temperature env \<lparr>ds_apiKey = DARK_SKY_KEY, googleKey = GOOGLE_GEOCODE_KEY\<rparr>]"

section \<open>Example inputs\<close>

text \<open>A network in which every request is answered with status 200: openWeatherMap
  reports 281.5 (kelvin), the geocoder one result, and darkSky and weatherUnderground 7.5
  (degrees Celsius).\<close>

definition net_answers :: env where
  "net_answers =
     \<lparr>http_Get = (\<lambda>url.
        if url = owm_url \<lparr>owm_apiKey = ''a''\<rparr> ''Oslo'' then
          Inr \<lparr>StatusCode = 200, Body = Json (JObj
            [(''main'', JObj [(''temp'', JNum False (563 / 2)), (''pressure'', JNum False 1012)]),
             (''name'', JStr ''Oslo'')])\<rparr>
        else if url = geocode_url ''Oslo'' ''g'' then
          Inr \<lparr>StatusCode = 200, Body = Json (JObj
            [(''results'', JArr [JObj [(''geometry'', JObj [(''location'',
               JObj [(''lat'', JNum False (599 / 10)), (''lng'', JNum False (43 / 4))])])]]),
             (''status'', JStr ''OK'')])\<rparr>
        else if url = ds_url \<lparr>ds_apiKey = ''d'', googleKey = ''g''\<rparr> ''59.9'' ''10.75'' then
          Inr \<lparr>StatusCode = 200, Body = Json (JObj
            [(''currently'', JObj [(''temperature'', JNum False (15 / 2))])])\<rparr>
        else
          Inr \<lparr>StatusCode = 200, Body = Json (JObj
            [(''current_observation'', JObj [(''temp_c'', JNum False (15 / 2))])])\<rparr>),
      fmt_Sprint = (\<lambda>x. if x = f64 (599 / 10) then ''59.9'' else ''10.75'')\<rparr>"

text \<open>A network in which the request of openWeatherMap fails, the body of
  weatherUnderground's answer breaks off, and darkSky's answer has a string where the
  temperature should be.\<close>

definition net_failures :: env where
  "net_failures =
     \<lparr>http_Get = (\<lambda>url.
        if url = owm_url \<lparr>owm_apiKey = ''a''\<rparr> ''Oslo'' then
          Inl ''dial tcp: i/o timeout''
        else if url = wu_url \<lparr>wu_apiKey = ''b''\<rparr> ''Oslo'' then
          Inr \<lparr>StatusCode = 200, Body = Malformed ''unexpected end of JSON input''\<rparr>
        else if url = geocode_url ''Oslo'' ''g'' then
          Inr \<lparr>StatusCode = 200, Body = Json (JObj
            [(''results'', JArr [JObj [(''geometry'', JObj [(''location'',
               JObj [(''lat'', JNum False (599 / 10)), (''lng'', JNum False (43 / 4))])])]]),
             (''status'', JStr ''OK'')])\<rparr>
        else
          Inr \<lparr>StatusCode = 200, Body = Json (JObj
            [(''currently'', JObj [(''temperature'', JStr ''n/a'')])])\<rparr>),
      fmt_Sprint = (\<lambda>x. if x = f64 (599 / 10) then ''59.9'' else ''10.75'')\<rparr>"

text \<open>A network that answers openWeatherMap with the status 401 and an object that
  describes the error, and everything else with an object that has a
  \<^verbatim>\<open>current_observation\<close> without a temperature.\<close>

definition net_no_temperature :: env where
  "net_no_temperature =
     \<lparr>http_Get = (\<lambda>url.
        if url = owm_url \<lparr>owm_apiKey = ''a''\<rparr> ''Oslo'' then
          Inr \<lparr>StatusCode = 401, Body = Json (JObj
            [(''cod'', JNum False 401), (''message'', JStr ''Invalid API key'')])\<rparr>
        else
          Inr \<lparr>StatusCode = 200, Body = Json (JObj
            [(''response'', JObj [(''error'', JObj [(''type'', JStr ''keynotfound'')])]),
             (''current_observation'', JObj [(''station_id'', JStr ''X'')])])\<rparr>),
      fmt_Sprint = (\<lambda>x. '''')\<rparr>"

text \<open>A JSON value that a struct can be decoded from.\<close>

fun object_or_null :: "json \<Rightarrow> bool" where
  "object_or_null JNull = True"
| "object_or_null (JObj kvs) = True"
| "object_or_null j = False"

text \<open>
  The specification's words, to compare the code with: the mean of canonical temperatures
  (a float64 sum from \<^verbatim>\<open>0.0\<close>, left to right, divided by their number) and the
  conversion \<open>report = (canonical - 273.15) * 1.8 + 32\<close>.
\<close>

definition spec_mean :: "float64 list \<Rightarrow> float64" where
  "spec_mean ts = fdiv (foldl fadd (f64 0) ts) (f64_of_nat (length ts))"

definition spec_report :: "float64 \<Rightarrow> float64" where
  "spec_report canonical =
     fadd (fmul (fsub canonical (f64 (27315 / 100))) (f64 (18 / 10))) (f64 32)"

text \<open>What holds of every state that a schedule reaches: the goroutines finish once
  each, \<^verbatim>\<open>temps\<close> holds the temperatures sent and not yet taken, \<^verbatim>\<open>sum\<close> is the sum
  of those taken, in the order sent, and \<^verbatim>\<open>errs\<close> holds the errors sent, less the one
  returned.\<close>

definition inv :: "float64 outcome list \<Rightarrow> collector \<Rightarrow> bool" where
  "inv outs s \<longleftrightarrow>
     distinct (finished s) \<and> set (finished s) \<subseteq> {..<length outs} \<and>
     iter s \<le> length (sent_temps outs (finished s)) \<and>
     temps s = drop (iter s) (sent_temps outs (finished s)) \<and>
     sum_f s = foldl fadd (f64 0) (take (iter s) (sent_temps outs (finished s))) \<and>
     (case returned_err s of
        None \<Rightarrow> errs s = sent_errs outs (finished s)
      | Some e \<Rightarrow> sent_errs outs (finished s) = e # errs s) \<and>
     (crashed s \<longrightarrow> (\<exists>p \<in> set (finished s). \<exists>m. outs ! p = Panic m))"

section \<open>Evaluating float64 arithmetic\<close>

lemma floor_rat_numeral:
  "\<lfloor>numeral a / numeral b :: rat\<rfloor> = numeral a div numeral b"
  using floor_divide_of_int_eq [of "numeral a" "numeral b", where ?'a = rat] by simp

lemmas f64_eval =
  f64_def f64_of_nat_def round64_def pow2_def nearest_even_def Let_def val_def fsub_def
  floor_rat_numeral

lemma f64_0: "f64 0 = Finite False 0"
  by (simp add: f64_eval)

lemma to_fahrenheit_NaN: "fadd (fmul (fsub NaN a) b) c = NaN"
  by (simp add: fsub_def)

section \<open>The states a schedule reaches\<close>

lemma sent_temps_append:
  "sent_temps outs (ps @ qs) = sent_temps outs ps @ sent_temps outs qs"
  by (induction ps) (auto split: outcome.splits)

lemma sent_errs_append:
  "sent_errs outs (ps @ qs) = sent_errs outs ps @ sent_errs outs qs"
  by (induction ps) (auto split: outcome.splits)

lemma inv_init: "inv outs init"
  by (simp add: inv_def init_def)

lemma inv_Finish:
  assumes "inv outs s" and "step outs (Finish p) s = Some s'"
  shows "inv outs s'"
  using assms
  by (cases "outs ! p")
    (auto simp: inv_def step_def sent_temps_append sent_errs_append
      split: if_splits option.splits)

lemma take_Suc_drop:
  "drop n xs = y # ys \<Longrightarrow> take (Suc n) xs = take n xs @ [y] \<and> drop (Suc n) xs = ys \<and> n < length xs"
  by (metis Cons_nth_drop_Suc drop_all list.distinct(1) list.inject not_le take_Suc_conv_app_nth)

lemma inv_RecvTemp:
  assumes "inv outs s" and "step outs RecvTemp s = Some s'"
  shows "inv outs s'"
proof -
  let ?T = "sent_temps outs (finished s)"
  from assms(2) obtain temp rest where
    t: "temps s = temp # rest" and c: "\<not> crashed s" and
    s': "s' = s\<lparr>temps := rest, sum_f := fadd (sum_f s) temp, iter := Suc (iter s)\<rparr>"
    by (auto simp: step_def split: if_splits list.splits)
  from assms(1) t have d: "drop (iter s) ?T = temp # rest"
    by (simp add: inv_def)
  note e = take_Suc_drop [OF d]
  from assms(1) e show ?thesis
    by (auto simp: inv_def s' split: option.splits)
qed

lemma inv_RecvErr:
  assumes "inv outs s" and "step outs RecvErr s = Some s'"
  shows "inv outs s'"
  using assms
  by (auto simp: inv_def step_def selecting_def split: if_splits option.splits list.splits)

lemma inv_step: "inv outs s \<Longrightarrow> step outs ev s = Some s' \<Longrightarrow> inv outs s'"
  by (cases ev) (auto intro: inv_Finish inv_RecvTemp inv_RecvErr)

lemma inv_run: "inv outs s \<Longrightarrow> run outs evs s = Some s' \<Longrightarrow> inv outs s'"
  by (induction evs arbitrary: s) (auto split: option.splits intro: inv_step)

lemma reachable_inv: "run outs evs init = Some s \<Longrightarrow> inv outs s"
  by (rule inv_run [OF inv_init])

lemma length_sent_temps: "length (sent_temps outs ps) \<le> length ps"
  by (induction ps) (auto split: outcome.splits)

lemma sent_temps_full:
  "length (sent_temps outs ps) = length ps \<Longrightarrow> p \<in> set ps \<Longrightarrow> is_Ok (outs ! p)"
proof (induction ps)
  case Nil
  then show ?case by simp
next
  case (Cons q ps)
  have le: "length (sent_temps outs ps) \<le> length ps"
    by (rule length_sent_temps)
  from Cons.prems(1) le obtain k where k: "outs ! q = Ok k"
    by (cases "outs ! q") auto
  with Cons show ?case by auto
qed

lemma sent_temps_all_Ok:
  "\<forall>p \<in> set ps. is_Ok (outs ! p) \<Longrightarrow>
   sent_temps outs ps = map (\<lambda>p. the_Ok (outs ! p)) ps"
proof (induction ps)
  case Nil
  then show ?case by simp
next
  case (Cons q ps)
  then show ?case by (cases "outs ! q") auto
qed

lemma sent_errs_all_Ok:
  "\<forall>p \<in> set ps. is_Ok (outs ! p) \<Longrightarrow> sent_errs outs ps = []"
proof (induction ps)
  case Nil
  then show ?case by simp
next
  case (Cons q ps)
  then show ?case by (cases "outs ! q") auto
qed

lemma sent_errs_mem:
  "e \<in> set (sent_errs outs ps) \<Longrightarrow> \<exists>q \<in> set ps. outs ! q = Err e"
  by (induction ps) (auto split: outcome.splits)

lemma sent_errs_nonempty:
  "p \<in> set ps \<Longrightarrow> outs ! p = Err e \<Longrightarrow> sent_errs outs ps \<noteq> []"
  by (induction ps) (auto split: outcome.splits)

lemma finished_bound: "distinct ps \<Longrightarrow> set ps \<subseteq> {..<n} \<Longrightarrow> length ps \<le> n"
  by (metis card_lessThan card_mono distinct_card finite_lessThan)

lemma finished_all:
  "distinct ps \<Longrightarrow> set ps \<subseteq> {..<n} \<Longrightarrow> n \<le> length ps \<Longrightarrow> set ps = {..<n}"
  by (metis card_lessThan card_subset_eq distinct_card finite_lessThan finished_bound le_antisym)

lemma mset_finished:
  "distinct ps \<Longrightarrow> set ps = {..<n} \<Longrightarrow> mset ps = mset [0..<n]"
  by (metis mset_set_set mset_upt atLeast0LessThan)

text \<open>The call returns a temperature only when every provider has sent one.\<close>

lemma returned_temperature:
  assumes i: "inv outs s" and r: "result (length outs) s = Some (Inr v)"
  shows "set (finished s) = {..<length outs}" and "distinct (finished s)"
    and "\<forall>p < length outs. is_Ok (outs ! p)"
    and "v = spec_report (fdiv (foldl fadd (f64 0)
              (map (\<lambda>p. the_Ok (outs ! p)) (finished s))) (f64_of_nat (length outs)))"
proof -
  let ?T = "sent_temps outs (finished s)"
  from r have n: "returned_err s = None" and it: "iter s = length outs"
    and v: "v = spec_report (fdiv (sum_f s) (f64_of_nat (length outs)))"
    by (auto simp: result_def spec_report_def Let_def split: option.splits if_splits)
  from i have d: "distinct (finished s)" and sub: "set (finished s) \<subseteq> {..<length outs}"
    and le: "iter s \<le> length ?T" and sm: "sum_f s = foldl fadd (f64 0) (take (iter s) ?T)"
    by (simp_all add: inv_def)
  have b: "length (finished s) \<le> length outs"
    by (rule finished_bound [OF d sub])
  have l: "length ?T \<le> length (finished s)"
    by (rule length_sent_temps)
  from it le b l have eq: "length ?T = length (finished s)" and full: "length outs \<le> length (finished s)"
    and tk: "take (iter s) ?T = ?T"
    by simp_all
  show all: "set (finished s) = {..<length outs}"
    by (rule finished_all [OF d sub full])
  show "distinct (finished s)" by (rule d)
  have ok: "\<forall>p \<in> set (finished s). is_Ok (outs ! p)"
    using sent_temps_full [OF eq] by blast
  with all show "\<forall>p < length outs. is_Ok (outs ! p)" by simp
  from v sm tk sent_temps_all_Ok [OF ok]
  show "v = spec_report (fdiv (foldl fadd (f64 0)
              (map (\<lambda>p. the_Ok (outs ! p)) (finished s))) (f64_of_nat (length outs)))"
    by simp
qed

text \<open>The error the call returns is the first one sent.\<close>

lemma returned_error:
  assumes i: "inv outs s" and r: "result (length outs) s = Some (Inl e)"
  shows "sent_errs outs (finished s) = e # errs s"
  using assms by (auto simp: inv_def result_def Let_def split: option.splits if_splits)


text \<open>When every provider succeeds, whatever the call returns is the converted mean of
  the temperatures in the order they were sent.\<close>

lemma all_Ok_result:
  assumes i: "inv (map Ok ts) s" and r: "result (length ts) s = Some r"
  shows "r = Inr (spec_report (spec_mean (map (\<lambda>p. ts ! p) (finished s))))"
    and "mset (map (\<lambda>p. ts ! p) (finished s)) = mset ts"
proof -
  let ?outs = "map Ok ts"
  from i have d: "distinct (finished s)" and sub: "set (finished s) \<subseteq> {..<length ts}"
    by (simp_all add: inv_def)
  then have ok: "\<forall>p \<in> set (finished s). is_Ok (?outs ! p)"
    by auto
  have v: "\<exists>v. r = Inr v"
  proof (cases r)
    case (Inl e)
    with r have "result (length ?outs) s = Some (Inl e)" by simp
    from returned_error [OF i this] sent_errs_all_Ok [OF ok] show ?thesis by simp
  next
    case (Inr v)
    then show ?thesis by blast
  qed
  then obtain v where rv: "r = Inr v" ..
  with r have r': "result (length ?outs) s = Some (Inr v)" by simp
  note t = returned_temperature [OF i r']
  from t(1) have all: "set (finished s) = {..<length ts}" by simp
  from sub have m: "map (\<lambda>p. the_Ok (?outs ! p)) (finished s) = map (\<lambda>p. ts ! p) (finished s)"
    by (auto simp: subset_iff)
  have len: "length (finished s) = length ts"
    using d all by (metis card_lessThan distinct_card)
  from t(4) m len rv show "r = Inr (spec_report (spec_mean (map (\<lambda>p. ts ! p) (finished s))))"
    by (simp add: spec_mean_def)
  have "mset (map (\<lambda>p. ts ! p) (finished s)) = image_mset (\<lambda>p. ts ! p) (mset [0..<length ts])"
    using mset_finished [OF d all] by (metis mset_map)
  also have "\<dots> = mset (map (\<lambda>p. ts ! p) [0..<length ts])"
    by simp
  also have "map (\<lambda>p. ts ! p) [0..<length ts] = ts"
    by (rule map_nth)
  finally show "mset (map (\<lambda>p. ts ! p) (finished s)) = mset ts" .
qed

text \<open>When every provider succeeds and nothing more can happen, the call has returned.\<close>

lemma all_Ok_quiescent:
  assumes i: "inv (map Ok ts) s" and q: "quiescent (map Ok ts) s"
  shows "result (length ts) s \<noteq> None"
proof -
  let ?outs = "map Ok ts"
  let ?T = "sent_temps ?outs (finished s)"
  from i have d: "distinct (finished s)" and sub: "set (finished s) \<subseteq> {..<length ts}"
    and le: "iter s \<le> length ?T" and tm: "temps s = drop (iter s) ?T"
    and cr: "crashed s \<longrightarrow> (\<exists>p \<in> set (finished s). \<exists>m. ?outs ! p = Panic m)"
    and er: "case returned_err s of None \<Rightarrow> errs s = sent_errs ?outs (finished s)
             | Some e \<Rightarrow> sent_errs ?outs (finished s) = e # errs s"
    by (simp_all add: inv_def)
  from sub have ok: "\<forall>p \<in> set (finished s). is_Ok (?outs ! p)"
    by auto
  from cr sub have nc: "\<not> crashed s"
    by (auto simp: subset_iff)
  from er sent_errs_all_Ok [OF ok] have ne: "returned_err s = None"
    by (cases "returned_err s") simp_all
  from q have fin: "\<forall>p < length ts. step ?outs (Finish p) s = None"
    and rt: "step ?outs RecvTemp s = None"
    by (simp_all add: quiescent_def list_all_iff)
  have all: "set (finished s) = {..<length ts}"
  proof
    show "set (finished s) \<subseteq> {..<length ts}" by (rule sub)
    show "{..<length ts} \<subseteq> set (finished s)"
    proof
      fix p assume "p \<in> {..<length ts}"
      then have p: "p < length ts" by simp
      with fin have "step ?outs (Finish p) s = None" by simp
      with p nc show "p \<in> set (finished s)"
        by (simp add: step_def split: if_splits)
    qed
  qed
  have len: "length ?T = length ts"
    using d all sent_temps_all_Ok [OF ok] by (metis card_lessThan distinct_card length_map)
  have "iter s = length ts"
  proof (rule ccontr)
    assume "iter s \<noteq> length ts"
    with le len have lt: "iter s < length ts" by simp
    with tm len have "temps s \<noteq> []" by simp
    with rt nc ne lt show False
      by (simp add: step_def selecting_def split: list.splits)
  qed
  with ne show ?thesis
    by (simp add: result_def Let_def)
qed

lemma report_273_15: "spec_report (spec_mean [f64 (27315 / 100)]) = f64 32"
  by (simp add: spec_report_def spec_mean_def f64_eval)

lemma run_result:
  "multiWeatherProvider_temperature w city sched = Some r \<longleftrightarrow>
   (\<exists>s. run (outcomes w city) sched init = Some s \<and> result (length w) s = Some r)"
  by (simp add: multiWeatherProvider_temperature_def split: option.splits)

lemmas run_eval =
  multiWeatherProvider_temperature_def outcomes_def init_def step_def selecting_def
  result_def

section \<open>All providers succeed\<close>

text \<open>
  C1. For a non-empty provider set whose providers all succeed with the temperatures
  \<open>ts\<close>: whatever the call returns under a schedule is, with no error, the float64 mean
  of the temperatures (summed in the order they arrived) converted by
  \<open>(mean - 273.15) * 1.8 + 32\<close>; when every goroutine has finished and the
  \<^verbatim>\<open>select\<close> can take nothing more, the call has returned; and a single provider
  answering \<open>273.15\<close> gives exactly \<open>32\<close>.
\<close>

theorem aggregator_all_success:
  assumes ne: "w \<noteq> []" and ok: "outcomes w city = map Ok ts"
  shows "(\<forall>r. multiWeatherProvider_temperature w city sched = Some r \<longrightarrow>
            (\<exists>ks. mset ks = mset ts \<and> r = Inr (spec_report (spec_mean ks))))
       \<and> (\<forall>s. run (outcomes w city) sched init = Some s \<and> quiescent (outcomes w city) s \<longrightarrow>
            multiWeatherProvider_temperature w city sched \<noteq> None)
       \<and> (ts = [f64 (27315 / 100)] \<longrightarrow>
            (\<forall>r. multiWeatherProvider_temperature w city sched = Some r \<longrightarrow> r = Inr (f64 32)))"
proof -
  from ok have len: "length w = length ts"
    by (metis length_map outcomes_def)
  have a: "\<exists>ks. mset ks = mset ts \<and> r = Inr (spec_report (spec_mean ks))"
    if "multiWeatherProvider_temperature w city sched = Some r" for r
  proof -
    from that obtain s where s: "run (map Ok ts) sched init = Some s"
      and r: "result (length ts) s = Some r"
      by (auto simp: run_result ok len)
    from all_Ok_result [OF reachable_inv [OF s] r] show ?thesis by blast
  qed
  have b: "multiWeatherProvider_temperature w city sched \<noteq> None"
    if "run (outcomes w city) sched init = Some s" and "quiescent (outcomes w city) s" for s
    using that all_Ok_quiescent [OF reachable_inv, of ts sched s]
    by (simp add: multiWeatherProvider_temperature_def ok len)
  have c: "r = Inr (f64 32)"
    if "ts = [f64 (27315 / 100)]" and "multiWeatherProvider_temperature w city sched = Some r" for r
  proof -
    from a [OF that(2)] obtain ks where "mset ks = mset ts" and r: "r = Inr (spec_report (spec_mean ks))"
      by blast
    with that(1) have "ks = [f64 (27315 / 100)]"
      by (metis mset_single_iff_right)
    with r report_273_15 show ?thesis by simp
  qed
  from a b c show ?thesis by blast
qed

theorem aggregator_all_success_witness:
  "[\<lambda>city. Ok (f64 (27315 / 100))] \<noteq> [] \<and>
   outcomes [\<lambda>city. Ok (f64 (27315 / 100))] ''Oslo'' = map Ok [f64 (27315 / 100)] \<and>
   multiWeatherProvider_temperature [\<lambda>city. Ok (f64 (27315 / 100))] ''Oslo''
     [Finish 0, RecvTemp] = Some (Inr (f64 32))"
proof -
  let ?w = "[\<lambda>city. Ok (f64 (27315 / 100))] :: multiWeatherProvider"
  have h1: "?w \<noteq> []" by simp
  have h2: "outcomes ?w ''Oslo'' = map Ok [f64 (27315 / 100)]"
    by (simp add: outcomes_def)
  have e: "multiWeatherProvider_temperature ?w ''Oslo'' [Finish 0, RecvTemp] \<noteq> None"
    by (simp add: run_eval)
  from h1 h2 e aggregator_all_success [OF h1 h2, of "[Finish 0, RecvTemp]"]
  show ?thesis by blast
qed

section \<open>A provider fails\<close>

lemma length_outcomes: "length (outcomes w city) = length w"
  by (simp add: outcomes_def)

lemma sent_temps_short:
  "p \<in> set ps \<Longrightarrow> \<not> is_Ok (outs ! p) \<Longrightarrow> length (sent_temps outs ps) < length ps"
proof (induction ps)
  case Nil
  then show ?case by simp
next
  case (Cons q ps)
  have le: "length (sent_temps outs ps) \<le> length ps"
    by (rule length_sent_temps)
  show ?case
  proof (cases "q = p")
    case True
    with Cons.prems(2) le show ?thesis
      by (cases "outs ! p") auto
  next
    case False
    with Cons have "length (sent_temps outs ps) < length ps" by simp
    then show ?thesis
      by (cases "outs ! q") auto
  qed
qed

text \<open>Once a provider that fails has sent its error, the \<^verbatim>\<open>select\<close> can take an error
  until the call has returned one.\<close>

lemma error_is_returned:
  assumes i: "inv outs s" and p: "p \<in> set (finished s)" and e0: "outs ! p = Err e0"
    and nc: "\<not> crashed s" and q: "step outs RecvErr s = None"
  shows "result (length outs) s = Some (Inl (hd (sent_errs outs (finished s))))"
proof (cases "returned_err s")
  case (Some e)
  with i have "sent_errs outs (finished s) = e # errs s"
    by (simp add: inv_def)
  with Some show ?thesis
    by (simp add: result_def)
next
  case None
  let ?T = "sent_temps outs (finished s)"
  from i None have d: "distinct (finished s)" and sub: "set (finished s) \<subseteq> {..<length outs}"
    and le: "iter s \<le> length ?T" and er: "errs s = sent_errs outs (finished s)"
    by (simp_all add: inv_def)
  from e0 have "\<not> is_Ok (outs ! p)" by simp
  from sent_temps_short [OF p this] finished_bound [OF d sub] le
  have lt: "iter s < length outs" by simp
  from sent_errs_nonempty [OF p e0] er have "errs s \<noteq> []" by simp
  with q nc None lt have False
    by (simp add: step_def selecting_def split: list.splits)
  then show ?thesis ..
qed

text \<open>
  C3. In every run in which a provider \<open>p\<close> of \<open>w\<close> fails: the call returns no
  temperature; an error it returns is the first one put on \<^verbatim>\<open>errs\<close>, as the provider
  made it; and once the failing provider has sent its error, the call has returned that
  first error as soon as the \<^verbatim>\<open>select\<close> can take no error any more (unless a panic
  has ended the process). The other providers may have succeeded, failed or not answered.
\<close>

theorem aggregator_first_error:
  assumes s: "run (outcomes w city) sched init = Some s"
    and p: "p < length w" and e0: "outcomes w city ! p = Err e0"
  shows "(\<forall>v. multiWeatherProvider_temperature w city sched \<noteq> Some (Inr v)) \<and>
         (\<forall>e. multiWeatherProvider_temperature w city sched = Some (Inl e) \<longrightarrow>
              e = hd (sent_errs (outcomes w city) (finished s)) \<and>
              (\<exists>q < length w. outcomes w city ! q = Err e)) \<and>
         (p \<in> set (finished s) \<and> \<not> crashed s \<and> step (outcomes w city) RecvErr s = None \<longrightarrow>
              multiWeatherProvider_temperature w city sched
                = Some (Inl (hd (sent_errs (outcomes w city) (finished s)))))"
proof -
  let ?outs = "outcomes w city"
  note i = reachable_inv [OF s]
  have len: "length ?outs = length w" by (rule length_outcomes)
  have m: "multiWeatherProvider_temperature w city sched = result (length ?outs) s"
    using s by (simp add: multiWeatherProvider_temperature_def len)
  have a: "multiWeatherProvider_temperature w city sched \<noteq> Some (Inr v)" for v
  proof
    assume "multiWeatherProvider_temperature w city sched = Some (Inr v)"
    with m have "result (length ?outs) s = Some (Inr v)" by simp
    from returned_temperature(3) [OF i this] p e0 len show False by auto
  qed
  have b: "e = hd (sent_errs ?outs (finished s)) \<and> (\<exists>q < length w. ?outs ! q = Err e)"
    if "multiWeatherProvider_temperature w city sched = Some (Inl e)" for e
  proof -
    from that m have "result (length ?outs) s = Some (Inl e)" by simp
    from returned_error [OF i this] have h: "sent_errs ?outs (finished s) = e # errs s" .
    then have "e \<in> set (sent_errs ?outs (finished s))" by simp
    from sent_errs_mem [OF this] obtain q where "q \<in> set (finished s)" and "?outs ! q = Err e"
      by blast
    moreover from i have "set (finished s) \<subseteq> {..<length ?outs}"
      by (simp add: inv_def)
    ultimately have "\<exists>q < length w. ?outs ! q = Err e"
      using len by auto
    with h show ?thesis by simp
  qed
  have c: "multiWeatherProvider_temperature w city sched
             = Some (Inl (hd (sent_errs ?outs (finished s))))"
    if "p \<in> set (finished s)" and "\<not> crashed s" and "step ?outs RecvErr s = None"
    using error_is_returned [OF i that(1) e0 that(2) that(3)] m by simp
  from a b c show ?thesis by blast
qed

text \<open>The scenario of the specification: 290.0 and a failed request. Here the error is
  sent first, and the \<^verbatim>\<open>select\<close> takes the temperature before it.\<close>

theorem aggregator_first_error_witness:
  "run (outcomes [\<lambda>city. Ok (f64 290), \<lambda>city. Err (UrlError ''timeout'')] ''Oslo'')
     [Finish 1, Finish 0, RecvTemp, RecvErr] init
     = Some \<lparr>finished = [1, 0], temps = [], errs = [], iter = 1, sum_f = f64 290,
             returned_err = Some (UrlError ''timeout''), crashed = False\<rparr> \<and>
   (1 :: nat) < length [\<lambda>city. Ok (f64 290), \<lambda>city :: string. Err (UrlError ''timeout'') :: float64 outcome] \<and>
   outcomes [\<lambda>city. Ok (f64 290), \<lambda>city. Err (UrlError ''timeout'')] ''Oslo'' ! 1
     = Err (UrlError ''timeout'') \<and>
   multiWeatherProvider_temperature
     [\<lambda>city. Ok (f64 290), \<lambda>city. Err (UrlError ''timeout'')] ''Oslo''
     [Finish 1, Finish 0, RecvTemp, RecvErr] = Some (Inl (UrlError ''timeout''))"
proof -
  let ?w = "[\<lambda>city. Ok (f64 290), \<lambda>city. Err (UrlError ''timeout'')] :: multiWeatherProvider"
  let ?sched = "[Finish 1, Finish 0, RecvTemp, RecvErr]"
  let ?s = "\<lparr>finished = [1, 0], temps = [], errs = [], iter = 1, sum_f = f64 290,
             returned_err = Some (UrlError ''timeout''), crashed = False\<rparr>"
  have h1: "run (outcomes ?w ''Oslo'') ?sched init = Some ?s"
    by (simp add: run_eval f64_eval)
  have h2: "(1 :: nat) < length ?w" by simp
  have h3: "outcomes ?w ''Oslo'' ! 1 = Err (UrlError ''timeout'')"
    by (simp add: outcomes_def)
  have q: "1 \<in> set (finished ?s) \<and> \<not> crashed ?s \<and> step (outcomes ?w ''Oslo'') RecvErr ?s = None"
    by (simp add: step_def selecting_def)
  have hd: "hd (sent_errs (outcomes ?w ''Oslo'') (finished ?s)) = UrlError ''timeout''"
    by (simp add: outcomes_def)
  note t = aggregator_first_error [OF h1 h2 h3]
  from mp [OF t [THEN conjunct2, THEN conjunct2] q]
  have e: "multiWeatherProvider_temperature ?w ''Oslo'' ?sched = Some (Inl (UrlError ''timeout''))"
    by (simp only: hd)
  show ?thesis
    by (intro conjI h1 h2 h3 e)
qed

section \<open>The order of arrival\<close>

text \<open>
  C4 (as stated, refuted). Three providers succeed with 273.15, 288.7 and 295.4. When the
  answers arrive in the order of declaration the call returns 54.679999999999936; when
  the third arrives before the second it returns 54.68000000000004: float64 addition is
  not associative, and the sum is taken in the order of arrival.
\<close>

theorem arrival_order_counterexample:
  "multiWeatherProvider_temperature
     [\<lambda>city. Ok (f64 (27315 / 100)), \<lambda>city. Ok (f64 (2887 / 10)), \<lambda>city. Ok (f64 (2954 / 10))]
     ''Oslo'' [Finish 0, Finish 1, Finish 2, RecvTemp, RecvTemp, RecvTemp]
   = Some (Inr (Finite False (3847762931634663 / 70368744177664))) \<and>
   multiWeatherProvider_temperature
     [\<lambda>city. Ok (f64 (27315 / 100)), \<lambda>city. Ok (f64 (2887 / 10)), \<lambda>city. Ok (f64 (2954 / 10))]
     ''Oslo'' [Finish 0, Finish 2, Finish 1, RecvTemp, RecvTemp, RecvTemp]
   = Some (Inr (Finite False (7695525863269341 / 140737488355328))) \<and>
   Finite False (3847762931634663 / 70368744177664)
     \<noteq> Finite False (7695525863269341 / 140737488355328)"
  by (simp add: run_eval f64_eval)

text \<open>
  C4 (amended). For a non-empty provider set whose providers all succeed, the value
  returned depends only on the order in which the goroutines send their temperatures:
  two schedules with the same order of sending return the same value, the converted
  float64 mean of the temperatures summed in that order.
\<close>

theorem aggregator_arrival_order:
  assumes ne: "w \<noteq> []" and ok: "outcomes w city = map Ok ts"
    and s1: "run (outcomes w city) sched1 init = Some s1"
    and s2: "run (outcomes w city) sched2 init = Some s2"
    and f: "finished s1 = finished s2"
    and r1: "multiWeatherProvider_temperature w city sched1 = Some r1"
    and r2: "multiWeatherProvider_temperature w city sched2 = Some r2"
  shows "r1 = r2 \<and> r1 = Inr (spec_report (spec_mean (map (\<lambda>p. ts ! p) (finished s1))))"
proof -
  from ok have len: "length w = length ts"
    by (metis length_map outcomes_def)
  from s1 r1 have a: "result (length ts) s1 = Some r1"
    by (simp add: multiWeatherProvider_temperature_def len)
  from s2 r2 have b: "result (length ts) s2 = Some r2"
    by (simp add: multiWeatherProvider_temperature_def len)
  from s1 s2 have i1: "inv (map Ok ts) s1" and i2: "inv (map Ok ts) s2"
    by (simp_all add: ok reachable_inv)
  from all_Ok_result(1) [OF i1 a] all_Ok_result(1) [OF i2 b] f show ?thesis
    by simp
qed

text \<open>Two schedules with the same order of sending and different interleavings of
  the receives.\<close>

theorem aggregator_arrival_order_witness:
  "[\<lambda>city. Ok (f64 (27315 / 100)), \<lambda>city. Ok (f64 (2887 / 10)), \<lambda>city :: string. Ok (f64 (2954 / 10))] \<noteq> [] \<and>
   outcomes [\<lambda>city. Ok (f64 (27315 / 100)), \<lambda>city. Ok (f64 (2887 / 10)), \<lambda>city. Ok (f64 (2954 / 10))] ''Oslo''
     = map Ok [f64 (27315 / 100), f64 (2887 / 10), f64 (2954 / 10)] \<and>
   multiWeatherProvider_temperature
     [\<lambda>city. Ok (f64 (27315 / 100)), \<lambda>city. Ok (f64 (2887 / 10)), \<lambda>city. Ok (f64 (2954 / 10))]
     ''Oslo'' [Finish 0, Finish 1, Finish 2, RecvTemp, RecvTemp, RecvTemp]
   = multiWeatherProvider_temperature
     [\<lambda>city. Ok (f64 (27315 / 100)), \<lambda>city. Ok (f64 (2887 / 10)), \<lambda>city. Ok (f64 (2954 / 10))]
     ''Oslo'' [Finish 0, RecvTemp, Finish 1, RecvTemp, Finish 2, RecvTemp] \<and>
   multiWeatherProvider_temperature
     [\<lambda>city. Ok (f64 (27315 / 100)), \<lambda>city. Ok (f64 (2887 / 10)), \<lambda>city. Ok (f64 (2954 / 10))]
     ''Oslo'' [Finish 0, RecvTemp, Finish 1, RecvTemp, Finish 2, RecvTemp]
   = Some (Inr (spec_report (spec_mean [f64 (27315 / 100), f64 (2887 / 10), f64 (2954 / 10)])))"
proof -
  let ?w = "[\<lambda>city. Ok (f64 (27315 / 100)), \<lambda>city. Ok (f64 (2887 / 10)),
             \<lambda>city. Ok (f64 (2954 / 10))] :: multiWeatherProvider"
  let ?ts = "[f64 (27315 / 100), f64 (2887 / 10), f64 (2954 / 10)]"
  let ?a = "[Finish 0, Finish 1, Finish 2, RecvTemp, RecvTemp, RecvTemp]"
  let ?b = "[Finish 0, RecvTemp, Finish 1, RecvTemp, Finish 2, RecvTemp]"
  have h1: "?w \<noteq> []" by simp
  have h2: "outcomes ?w ''Oslo'' = map Ok ?ts"
    by (simp add: outcomes_def)
  obtain s1 where s1: "run (outcomes ?w ''Oslo'') ?a init = Some s1"
    and f1: "finished s1 = [0, 1, 2]" and n1: "result (length ?w) s1 \<noteq> None"
    by (simp add: run_eval)
  obtain s2 where s2: "run (outcomes ?w ''Oslo'') ?b init = Some s2"
    and f2: "finished s2 = [0, 1, 2]" and n2: "result (length ?w) s2 \<noteq> None"
    by (simp add: run_eval)
  from s1 n1 obtain r1 where r1: "multiWeatherProvider_temperature ?w ''Oslo'' ?a = Some r1"
    by (auto simp: multiWeatherProvider_temperature_def)
  from s2 n2 obtain r2 where r2: "multiWeatherProvider_temperature ?w ''Oslo'' ?b = Some r2"
    by (auto simp: multiWeatherProvider_temperature_def)
  from f1 f2 have f: "finished s1 = finished s2" by simp
  note t = aggregator_arrival_order [OF h1 h2 s1 s2 f r1 r2]
  have m: "map (\<lambda>p. ?ts ! p) (finished s1) = ?ts"
    by (simp add: f1)
  from t have q1: "r1 = r2"
    and q2: "r1 = Inr (spec_report (spec_mean (map (\<lambda>p. ?ts ! p) (finished s1))))"
    by (rule conjunct1, rule conjunct2)
  from q1 q2 have q3: "r2 = Inr (spec_report (spec_mean ?ts))"
    by (simp only: m)
  have e1: "multiWeatherProvider_temperature ?w ''Oslo'' ?a
      = multiWeatherProvider_temperature ?w ''Oslo'' ?b"
    by (simp only: r1 r2 q1)
  have e2: "multiWeatherProvider_temperature ?w ''Oslo'' ?b
      = Some (Inr (spec_report (spec_mean ?ts)))"
    by (simp only: r2 q3)
  show ?thesis
    by (intro conjI h1 h2 e1 e2)
qed

section \<open>The providers' units\<close>

lemmas json_eval =
  Decode_def owm_Decode_def wu_Decode_def g_Decode_def ds_Decode_def
  owm_d_field_def owm_Main_field_def wu_d_field_def wu_Observation_field_def
  g_field_def g_Result_field_def g_Geometry_field_def g_Location_field_def g_Result_zero_def
  ds_d_field_def ds_Currently_field_def upper_def index_def

lemmas url_eval = owm_url_def wu_url_def geocode_url_def ds_url_def

text \<open>
  C7. Every provider returns the temperature in the canonical unit: openWeatherMap, whose
  upstream reports kelvin, returns the decoded value unchanged; weatherUnderground and
  darkSky, whose upstreams report degrees Celsius, return the decoded value plus 273.15
  (a float64 addition).
\<close>

theorem providers_normalize:
  "(\<forall>resp d. http_Get env (owm_url ow city) = Inr resp \<and> owm_Decode (Body resp) = Inr d \<longrightarrow>
      openWeatherMap_temperature env ow city = Ok (Kelvin (Main d))) \<and>
   (\<forall>resp d. http_Get env (wu_url wu city) = Inr resp \<and> wu_Decode (Body resp) = Inr d \<longrightarrow>
      weatherUnderground_temperature env wu city
        = Ok (fadd (Celsius (Observation d)) (f64 (27315 / 100)))) \<and>
   (\<forall>lat lon resp d.
      darkSky_getCoords env ds city (googleKey ds) = Ok (lat, lon) \<and>
      http_Get env (ds_url ds (fmt_Sprint env lat) (fmt_Sprint env lon)) = Inr resp \<and>
      ds_Decode (Body resp) = Inr d \<longrightarrow>
      darkSky_temperature env ds city
        = Ok (fadd (Temperature (Currently d)) (f64 (27315 / 100))))"
  by (simp add: openWeatherMap_temperature_def weatherUnderground_temperature_def
      darkSky_temperature_def Let_def)


text \<open>In the example network: 281.5 is passed on, and 7.5 becomes 7.5 + 273.15.\<close>

theorem providers_normalize_witness:
  "openWeatherMap_temperature net_answers \<lparr>owm_apiKey = ''a''\<rparr> ''Oslo'' = Ok (f64 (563 / 2)) \<and>
   weatherUnderground_temperature net_answers \<lparr>wu_apiKey = ''b''\<rparr> ''Oslo''
     = Ok (fadd (f64 (15 / 2)) (f64 (27315 / 100))) \<and>
   darkSky_temperature net_answers \<lparr>ds_apiKey = ''d'', googleKey = ''g''\<rparr> ''Oslo''
     = Ok (fadd (f64 (15 / 2)) (f64 (27315 / 100)))"
proof -
  let ?ow = "\<lparr>owm_apiKey = ''a''\<rparr>" and ?wu = "\<lparr>wu_apiKey = ''b''\<rparr>"
  let ?ds = "\<lparr>ds_apiKey = ''d'', googleKey = ''g''\<rparr>"
  note t = providers_normalize [of net_answers ?ow "''Oslo''" ?wu ?ds]
  obtain r1 where a1: "http_Get net_answers (owm_url ?ow ''Oslo'') = Inr r1"
    and a2: "owm_Decode (Body r1) = Inr \<lparr>Main = \<lparr>Kelvin = f64 (563 / 2)\<rparr>\<rparr>"
    by (simp add: net_answers_def url_eval json_eval f64_eval)
  obtain r2 where b1: "http_Get net_answers (wu_url ?wu ''Oslo'') = Inr r2"
    and b2: "wu_Decode (Body r2) = Inr \<lparr>Observation = \<lparr>Celsius = f64 (15 / 2)\<rparr>\<rparr>"
    by (simp add: net_answers_def url_eval json_eval f64_eval)
  have c1: "darkSky_getCoords net_answers ?ds ''Oslo'' (googleKey ?ds) = Ok (f64 (599 / 10), f64 (43 / 4))"
    by (simp add: darkSky_getCoords_def net_answers_def url_eval json_eval f64_eval)
  obtain r3 where c2: "http_Get net_answers (ds_url ?ds (fmt_Sprint net_answers (f64 (599 / 10)))
         (fmt_Sprint net_answers (f64 (43 / 4)))) = Inr r3"
    and c3: "ds_Decode (Body r3) = Inr \<lparr>Currently = \<lparr>Temperature = f64 (15 / 2)\<rparr>\<rparr>"
    by (simp add: net_answers_def url_eval json_eval f64_eval)
  from t [THEN conjunct1, rule_format, OF conjI [OF a1 a2]]
  have x: "openWeatherMap_temperature net_answers ?ow ''Oslo'' = Ok (f64 (563 / 2))" by simp
  from t [THEN conjunct2, THEN conjunct1, rule_format, OF conjI [OF b1 b2]]
  have y: "weatherUnderground_temperature net_answers ?wu ''Oslo''
     = Ok (fadd (f64 (15 / 2)) (f64 (27315 / 100)))" by simp
  from t [THEN conjunct2, THEN conjunct2, rule_format, OF conjI [OF c1 conjI [OF c2 c3]]]
  have z: "darkSky_temperature net_answers ?ds ''Oslo''
     = Ok (fadd (f64 (15 / 2)) (f64 (27315 / 100)))" by simp
  show ?thesis
    by (intro conjI x y z)
qed

section \<open>The program on an example\<close>

text \<open>The three providers of \<^verbatim>\<open>main\<close> in the example network where all requests are
  answered: 281.5, 280.65 and 280.65 kelvin, reported as 46.01000000000005.\<close>

lemma main_mw_example:
  "outcomes (main_mw net_answers ''a'' ''b'' ''d'' ''g'') ''Oslo''
     = [Ok (f64 (563 / 2)), Ok (fadd (f64 (15 / 2)) (f64 (27315 / 100))),
        Ok (fadd (f64 (15 / 2)) (f64 (27315 / 100)))]"
  by (simp add: outcomes_def main_mw_def openWeatherMap_temperature_def
      weatherUnderground_temperature_def darkSky_temperature_def darkSky_getCoords_def
      net_answers_def url_eval json_eval f64_eval)

lemma main_mw_report:
  "multiWeatherProvider_temperature (main_mw net_answers ''a'' ''b'' ''d'' ''g'') ''Oslo''
     [Finish 0, Finish 1, Finish 2, RecvTemp, RecvTemp, RecvTemp]
   = Some (Inr (Finite False (809416479903581 / 17592186044416)))"
  using main_mw_example
  by (simp add: multiWeatherProvider_temperature_def main_mw_def init_def step_def
      selecting_def result_def f64_eval)

section \<open>Geocoding without results\<close>

text \<open>
  C9. \<^verbatim>\<open>getCoords\<close> reads \<^verbatim>\<open>g.Results[0]\<close> without a check of the length: when
  the geocoding response decodes, without error, to an empty \<^verbatim>\<open>Results\<close>, the index is
  out of range and the call panics and returns no error; so does
  \<^verbatim>\<open>darkSky.temperature\<close>, which calls it.
\<close>

theorem getCoords_empty_Results:
  assumes "http_Get env (geocode_url city key) = Inr res"
    and "g_Decode (Body res) = Inr g" and "Results g = []"
  shows "index (Results g) 0 = None \<and>
         darkSky_getCoords env w city key = Panic ''index out of range [0] with length 0'' \<and>
         (key = googleKey w \<longrightarrow>
            darkSky_temperature env w city = Panic ''index out of range [0] with length 0'')"
  using assms by (auto simp: darkSky_getCoords_def darkSky_temperature_def index_def)

text \<open>The geocoder's answer for a place it does not know.\<close>

theorem getCoords_empty_Results_witness:
  "http_Get
     \<lparr>http_Get = (\<lambda>url. Inr \<lparr>StatusCode = 200,
         Body = Json (JObj [(''results'', JArr []), (''status'', JStr ''ZERO_RESULTS'')])\<rparr>),
      fmt_Sprint = (\<lambda>x. ''0'')\<rparr>
     (geocode_url ''Atlantis'' ''g'')
     = Inr \<lparr>StatusCode = 200,
         Body = Json (JObj [(''results'', JArr []), (''status'', JStr ''ZERO_RESULTS'')])\<rparr> \<and>
   g_Decode (Body \<lparr>StatusCode = 200,
         Body = Json (JObj [(''results'', JArr []), (''status'', JStr ''ZERO_RESULTS'')])\<rparr>)
     = Inr \<lparr>Results = []\<rparr> \<and>
   Results \<lparr>Results = []\<rparr> = [] \<and>
   darkSky_temperature
     \<lparr>http_Get = (\<lambda>url. Inr \<lparr>StatusCode = 200,
         Body = Json (JObj [(''results'', JArr []), (''status'', JStr ''ZERO_RESULTS'')])\<rparr>),
      fmt_Sprint = (\<lambda>x. ''0'')\<rparr>
     \<lparr>ds_apiKey = ''d'', googleKey = ''g''\<rparr> ''Atlantis''
     = Panic ''index out of range [0] with length 0''"
proof -
  let ?resp = "\<lparr>StatusCode = 200,
         Body = Json (JObj [(''results'', JArr []), (''status'', JStr ''ZERO_RESULTS'')])\<rparr>"
  let ?env = "\<lparr>http_Get = (\<lambda>url. Inr ?resp), fmt_Sprint = (\<lambda>x. ''0'')\<rparr>"
  let ?w = "\<lparr>ds_apiKey = ''d'', googleKey = ''g''\<rparr>"
  have h1: "http_Get ?env (geocode_url ''Atlantis'' ''g'') = Inr ?resp" by simp
  have h2: "g_Decode (Body ?resp) = Inr \<lparr>Results = []\<rparr>"
    by (simp add: json_eval)
  have h3: "Results \<lparr>Results = []\<rparr> = []" by simp
  have k: "''g'' = googleKey ?w" by simp
  note t = getCoords_empty_Results [OF h1 h2 h3, of ?w]
  from mp [OF t [THEN conjunct2, THEN conjunct2] k]
  have p: "darkSky_temperature ?env ?w ''Atlantis'' = Panic ''index out of range [0] with length 0''" .
  show ?thesis
    by (intro conjI h1 h2 h3 p)
qed


section \<open>How a provider fails\<close>

lemma decode_float64_error: "decode_float64 j cur = Inl e \<Longrightarrow> decode_error e"
  by (cases j) (auto split: float64.splits)

lemma decode_members_error:
  assumes "\<And>k v d e. field k v d = Inl e \<Longrightarrow> decode_error e"
  shows "decode_members field kvs d = Inl e \<Longrightarrow> decode_error e"
  by (induction kvs arbitrary: d) (auto split: sum.splits dest: assms)

lemma decode_struct_error:
  assumes "\<And>k v d e. field k v d = Inl e \<Longrightarrow> decode_error e"
  shows "decode_struct field j d = Inl e \<Longrightarrow> decode_error e"
  using decode_members_error [OF assms] by (cases j) auto

lemma decode_elements_error:
  assumes "\<And>j e. elem j = Inl e \<Longrightarrow> decode_error e"
  shows "decode_elements elem js = Inl e \<Longrightarrow> decode_error e"
  by (induction js arbitrary: e) (auto split: sum.splits dest: assms)

lemma decode_slice_error:
  assumes "\<And>j e. elem j = Inl e \<Longrightarrow> decode_error e"
  shows "decode_slice elem j = Inl e \<Longrightarrow> decode_error e"
  using decode_elements_error [OF assms] by (cases j) auto

lemma Decode_error:
  assumes "\<And>j d e. dec j d = Inl e \<Longrightarrow> decode_error e"
  shows "Decode dec b d = Inl e \<Longrightarrow> decode_error e"
  by (cases b) (auto simp: Decode_def dest: assms)

lemma owm_Main_field_error: "owm_Main_field k v d = Inl e \<Longrightarrow> decode_error e"
  by (auto simp: owm_Main_field_def split: if_splits sum.splits dest: decode_float64_error)

lemma owm_d_field_error: "owm_d_field k v d = Inl e \<Longrightarrow> decode_error e"
  using decode_struct_error [OF owm_Main_field_error]
  by (auto simp: owm_d_field_def split: if_splits sum.splits)

lemma owm_Decode_error: "owm_Decode b = Inl e \<Longrightarrow> decode_error e"
  unfolding owm_Decode_def
  by (rule Decode_error [OF decode_struct_error [OF owm_d_field_error]])

lemma wu_Observation_field_error: "wu_Observation_field k v d = Inl e \<Longrightarrow> decode_error e"
  by (auto simp: wu_Observation_field_def split: if_splits sum.splits dest: decode_float64_error)

lemma wu_d_field_error: "wu_d_field k v d = Inl e \<Longrightarrow> decode_error e"
  using decode_struct_error [OF wu_Observation_field_error]
  by (auto simp: wu_d_field_def split: if_splits sum.splits)

lemma wu_Decode_error: "wu_Decode b = Inl e \<Longrightarrow> decode_error e"
  unfolding wu_Decode_def
  by (rule Decode_error [OF decode_struct_error [OF wu_d_field_error]])

lemma ds_Currently_field_error: "ds_Currently_field k v d = Inl e \<Longrightarrow> decode_error e"
  by (auto simp: ds_Currently_field_def split: if_splits sum.splits dest: decode_float64_error)

lemma ds_d_field_error: "ds_d_field k v d = Inl e \<Longrightarrow> decode_error e"
  using decode_struct_error [OF ds_Currently_field_error]
  by (auto simp: ds_d_field_def split: if_splits sum.splits)

lemma ds_Decode_error: "ds_Decode b = Inl e \<Longrightarrow> decode_error e"
  unfolding ds_Decode_def
  by (rule Decode_error [OF decode_struct_error [OF ds_d_field_error]])

lemma g_Location_field_error: "g_Location_field k v d = Inl e \<Longrightarrow> decode_error e"
  by (auto simp: g_Location_field_def split: if_splits sum.splits dest: decode_float64_error)

lemma g_Geometry_field_error: "g_Geometry_field k v d = Inl e \<Longrightarrow> decode_error e"
  using decode_struct_error [OF g_Location_field_error]
  by (auto simp: g_Geometry_field_def split: if_splits sum.splits)

lemma g_Result_field_error: "g_Result_field k v d = Inl e \<Longrightarrow> decode_error e"
  using decode_struct_error [OF g_Geometry_field_error]
  by (auto simp: g_Result_field_def split: if_splits sum.splits)

lemma g_field_error: "g_field k v d = Inl e \<Longrightarrow> decode_error e"
  using decode_slice_error [OF decode_struct_error [OF g_Result_field_error]]
  by (auto simp: g_field_def split: if_splits sum.splits)

lemma g_Decode_error: "g_Decode b = Inl e \<Longrightarrow> decode_error e"
  unfolding g_Decode_def
  by (rule Decode_error [OF decode_struct_error [OF g_field_error]])

lemma http_Get_set_status:
  "http_Get (set_status f env) url =
     (case http_Get env url of
        Inl err \<Rightarrow> Inl err
      | Inr resp \<Rightarrow> Inr (resp\<lparr>StatusCode := f (StatusCode resp)\<rparr>))"
  by (simp add: set_status_def)

lemma fmt_Sprint_set_status: "fmt_Sprint (set_status f env) = fmt_Sprint env"
  by (simp add: set_status_def)

lemma openWeatherMap_set_status:
  "openWeatherMap_temperature (set_status f env) w city = openWeatherMap_temperature env w city"
  by (simp add: openWeatherMap_temperature_def http_Get_set_status split: sum.splits)

lemma weatherUnderground_set_status:
  "weatherUnderground_temperature (set_status f env) w city
     = weatherUnderground_temperature env w city"
  by (simp add: weatherUnderground_temperature_def http_Get_set_status split: sum.splits)

lemma getCoords_set_status:
  "darkSky_getCoords (set_status f env) w city key = darkSky_getCoords env w city key"
  by (simp add: darkSky_getCoords_def http_Get_set_status split: sum.splits)

lemma darkSky_set_status:
  "darkSky_temperature (set_status f env) w city = darkSky_temperature env w city"
  by (simp add: darkSky_temperature_def getCoords_set_status http_Get_set_status
      fmt_Sprint_set_status Let_def split: sum.splits outcome.splits prod.splits)

text \<open>
  C6 (as stated, refuted). openWeatherMap answers a request with a bad key with the
  status 401 and a JSON object that describes the error. The provider does not fail: it
  returns the temperature 0 and no error.
\<close>

theorem non_success_status_counterexample:
  "openWeatherMap_temperature
     \<lparr>http_Get = (\<lambda>url. Inr \<lparr>StatusCode = 401, Body = Json (JObj
         [(''cod'', JNum False 401), (''message'', JStr ''Invalid API key'')])\<rparr>),
      fmt_Sprint = (\<lambda>x. '''')\<rparr>
     \<lparr>owm_apiKey = ''none''\<rparr> ''Oslo'' = Ok (Finite False 0)"
  by (simp add: openWeatherMap_temperature_def json_eval f64_eval)


text \<open>
  C6 (amended). Every provider's \<^verbatim>\<open>temperature\<close> fails with the error of
  \<^verbatim>\<open>http.Get\<close> (an upstream error) when a request itself fails, and with the error of
  the decoder (a decode error) when the body of a response cannot be decoded into the
  expected shape. The status of a response is never looked at: with any other status codes
  the result is the same, so a status that is not a success is no failure by itself. For
  openWeatherMap and weatherUnderground there is no other failure: when the request and
  the decoding succeed, a temperature is returned. For darkSky the same holds of its two
  requests in turn, once \<^verbatim>\<open>getCoords\<close> has returned coordinates.
\<close>

theorem provider_failures:
  "(\<forall>m. http_Get env (owm_url ow city) = Inl m \<longrightarrow>
      openWeatherMap_temperature env ow city = Err (UrlError m)) \<and>
   (\<forall>resp e. http_Get env (owm_url ow city) = Inr resp \<and> owm_Decode (Body resp) = Inl e \<longrightarrow>
      openWeatherMap_temperature env ow city = Err e \<and> decode_error e) \<and>
   (\<forall>resp d. http_Get env (owm_url ow city) = Inr resp \<and> owm_Decode (Body resp) = Inr d \<longrightarrow>
      is_Ok (openWeatherMap_temperature env ow city)) \<and>
   openWeatherMap_temperature (set_status f env) ow city
     = openWeatherMap_temperature env ow city \<and>
   (\<forall>m. http_Get env (wu_url wu city) = Inl m \<longrightarrow>
      weatherUnderground_temperature env wu city = Err (UrlError m)) \<and>
   (\<forall>resp e. http_Get env (wu_url wu city) = Inr resp \<and> wu_Decode (Body resp) = Inl e \<longrightarrow>
      weatherUnderground_temperature env wu city = Err e \<and> decode_error e) \<and>
   (\<forall>resp d. http_Get env (wu_url wu city) = Inr resp \<and> wu_Decode (Body resp) = Inr d \<longrightarrow>
      is_Ok (weatherUnderground_temperature env wu city)) \<and>
   weatherUnderground_temperature (set_status f env) wu city
     = weatherUnderground_temperature env wu city \<and>
   (\<forall>m. http_Get env (geocode_url city (googleKey ds)) = Inl m \<longrightarrow>
      darkSky_temperature env ds city = Err (UrlError m)) \<and>
   (\<forall>res e. http_Get env (geocode_url city (googleKey ds)) = Inr res \<and>
        g_Decode (Body res) = Inl e \<longrightarrow>
      darkSky_temperature env ds city = Err e \<and> decode_error e) \<and>
   (\<forall>lat lon m. darkSky_getCoords env ds city (googleKey ds) = Ok (lat, lon) \<and>
        http_Get env (ds_url ds (fmt_Sprint env lat) (fmt_Sprint env lon)) = Inl m \<longrightarrow>
      darkSky_temperature env ds city = Err (UrlError m)) \<and>
   (\<forall>lat lon resp e. darkSky_getCoords env ds city (googleKey ds) = Ok (lat, lon) \<and>
        http_Get env (ds_url ds (fmt_Sprint env lat) (fmt_Sprint env lon)) = Inr resp \<and>
        ds_Decode (Body resp) = Inl e \<longrightarrow>
      darkSky_temperature env ds city = Err e \<and> decode_error e) \<and>
   (\<forall>lat lon resp d. darkSky_getCoords env ds city (googleKey ds) = Ok (lat, lon) \<and>
        http_Get env (ds_url ds (fmt_Sprint env lat) (fmt_Sprint env lon)) = Inr resp \<and>
        ds_Decode (Body resp) = Inr d \<longrightarrow>
      is_Ok (darkSky_temperature env ds city)) \<and>
   darkSky_temperature (set_status f env) ds city = darkSky_temperature env ds city"
  apply (intro conjI)
  subgoal by (simp add: openWeatherMap_temperature_def)
  subgoal by (auto simp: openWeatherMap_temperature_def dest: owm_Decode_error)
  subgoal by (auto simp: openWeatherMap_temperature_def)
  subgoal by (rule openWeatherMap_set_status)
  subgoal by (simp add: weatherUnderground_temperature_def)
  subgoal by (auto simp: weatherUnderground_temperature_def dest: wu_Decode_error)
  subgoal by (auto simp: weatherUnderground_temperature_def Let_def)
  subgoal by (rule weatherUnderground_set_status)
  subgoal by (simp add: darkSky_temperature_def darkSky_getCoords_def)
  subgoal by (auto simp: darkSky_temperature_def darkSky_getCoords_def dest: g_Decode_error)
  subgoal by (simp add: darkSky_temperature_def Let_def)
  subgoal by (auto simp: darkSky_temperature_def Let_def dest: ds_Decode_error)
  subgoal by (auto simp: darkSky_temperature_def Let_def)
  subgoal by (rule darkSky_set_status)
  done

text \<open>In the example network: a failed request, a broken body and a value of the wrong
  kind, each returned as the provider's error.\<close>

theorem provider_failures_witness:
  "openWeatherMap_temperature net_failures \<lparr>owm_apiKey = ''a''\<rparr> ''Oslo''
     = Err (UrlError ''dial tcp: i/o timeout'') \<and>
   weatherUnderground_temperature net_failures \<lparr>wu_apiKey = ''b''\<rparr> ''Oslo''
     = Err (BodyError ''unexpected end of JSON input'') \<and>
   darkSky_temperature net_failures \<lparr>ds_apiKey = ''d'', googleKey = ''g''\<rparr> ''Oslo''
     = Err (UnmarshalTypeError ''string'') \<and>
   decode_error (UnmarshalTypeError ''string'')"
proof -
  let ?ow = "\<lparr>owm_apiKey = ''a''\<rparr>" and ?wu = "\<lparr>wu_apiKey = ''b''\<rparr>"
  let ?ds = "\<lparr>ds_apiKey = ''d'', googleKey = ''g''\<rparr>"
  note t = provider_failures [of net_failures ?ow "''Oslo''" _ ?wu ?ds]
  have a: "http_Get net_failures (owm_url ?ow ''Oslo'') = Inl ''dial tcp: i/o timeout''"
    by (simp add: net_failures_def)
  obtain r where b1: "http_Get net_failures (wu_url ?wu ''Oslo'') = Inr r"
    and b2: "wu_Decode (Body r) = Inl (BodyError ''unexpected end of JSON input'')"
    by (simp add: net_failures_def url_eval json_eval)
  have c1: "darkSky_getCoords net_failures ?ds ''Oslo'' (googleKey ?ds) = Ok (f64 (599 / 10), f64 (43 / 4))"
    by (simp add: darkSky_getCoords_def net_failures_def url_eval json_eval f64_eval)
  obtain r' where c2: "http_Get net_failures (ds_url ?ds (fmt_Sprint net_failures (f64 (599 / 10)))
         (fmt_Sprint net_failures (f64 (43 / 4)))) = Inr r'"
    and c3: "ds_Decode (Body r') = Inl (UnmarshalTypeError ''string'')"
    by (simp add: net_failures_def url_eval json_eval f64_eval)
  note x = t [THEN conjunct1, rule_format, OF a]
  note t4 = t [THEN conjunct2, THEN conjunct2, THEN conjunct2, THEN conjunct2]
  note y = t4 [THEN conjunct2, THEN conjunct1, rule_format, OF conjI [OF b1 b2], THEN conjunct1]
  note t8 = t4 [THEN conjunct2, THEN conjunct2, THEN conjunct2, THEN conjunct2]
  note z = t8 [THEN conjunct2, THEN conjunct2, THEN conjunct2, THEN conjunct1, rule_format,
      OF conjI [OF c1 conjI [OF c2 c3]]]
  show ?thesis
    by (intro conjI x y z [THEN conjunct1] z [THEN conjunct2])
qed

section \<open>Bodies without the expected fields\<close>

lemma decode_members_skip:
  assumes "\<And>k v d. foldName k \<noteq> foldName name \<Longrightarrow> field k v d = Inr d"
    and "no_key name kvs"
  shows "decode_members field kvs d = Inr d"
  using assms(2) by (induction kvs) (auto simp: no_key_def assms(1))

lemma no_inner_skip:
  assumes "\<And>k v d. foldName k \<noteq> foldName name \<Longrightarrow> field k v d = Inr d"
    and "no_inner name v"
  shows "decode_struct field v d = Inr d"
  using assms(2) decode_members_skip [of name field, OF assms(1)] by (cases v) auto

lemma lacks_owm:
  "lacks_field ''main'' ''temp'' kvs \<Longrightarrow> decode_members owm_d_field kvs d = Inr d"
proof (induction kvs)
  case Nil
  then show ?case by simp
next
  case (Cons kv kvs)
  obtain k v where kv: "kv = (k, v)" by (cases kv)
  have "owm_d_field k v d = Inr d"
  proof (cases "foldName k = foldName ''main''")
    case True
    with Cons.prems kv have "no_inner ''temp'' v"
      by (simp add: lacks_field_def)
    then have "decode_struct owm_Main_field v (Main d) = Inr (Main d)"
      by (rule no_inner_skip [rotated]) (simp add: owm_Main_field_def)
    with True show ?thesis by (simp add: owm_d_field_def)
  next
    case False
    then show ?thesis by (simp add: owm_d_field_def)
  qed
  moreover from Cons.prems kv have "lacks_field ''main'' ''temp'' kvs"
    by (simp add: lacks_field_def)
  ultimately show ?case using Cons.IH kv by simp
qed

lemma lacks_wu:
  "lacks_field ''current_observation'' ''temp_c'' kvs \<Longrightarrow>
   decode_members wu_d_field kvs d = Inr d"
proof (induction kvs)
  case Nil
  then show ?case by simp
next
  case (Cons kv kvs)
  obtain k v where kv: "kv = (k, v)" by (cases kv)
  have "wu_d_field k v d = Inr d"
  proof (cases "foldName k = foldName ''current_observation''")
    case True
    with Cons.prems kv have "no_inner ''temp_c'' v"
      by (simp add: lacks_field_def)
    then have "decode_struct wu_Observation_field v (Observation d) = Inr (Observation d)"
      by (rule no_inner_skip [rotated]) (simp add: wu_Observation_field_def)
    with True show ?thesis by (simp add: wu_d_field_def)
  next
    case False
    then show ?thesis by (simp add: wu_d_field_def)
  qed
  moreover from Cons.prems kv have "lacks_field ''current_observation'' ''temp_c'' kvs"
    by (simp add: lacks_field_def)
  ultimately show ?case using Cons.IH kv by simp
qed

lemma lacks_ds:
  "lacks_field ''Currently'' ''Temperature'' kvs \<Longrightarrow>
   decode_members ds_d_field kvs d = Inr d"
proof (induction kvs)
  case Nil
  then show ?case by simp
next
  case (Cons kv kvs)
  obtain k v where kv: "kv = (k, v)" by (cases kv)
  have "ds_d_field k v d = Inr d"
  proof (cases "foldName k = foldName ''Currently''")
    case True
    with Cons.prems kv have "no_inner ''Temperature'' v"
      by (simp add: lacks_field_def)
    then have "decode_struct ds_Currently_field v (Currently d) = Inr (Currently d)"
      by (rule no_inner_skip [rotated]) (simp add: ds_Currently_field_def)
    with True show ?thesis by (simp add: ds_d_field_def)
  next
    case False
    then show ?thesis by (simp add: ds_d_field_def)
  qed
  moreover from Cons.prems kv have "lacks_field ''Currently'' ''Temperature'' kvs"
    by (simp add: lacks_field_def)
  ultimately show ?case using Cons.IH kv by simp
qed

lemma zero_celsius: "fadd (f64 0) (f64 (27315 / 100)) = f64 (27315 / 100)"
  by (simp add: f64_eval)

text \<open>
  C10 (as stated, refuted). A body that is the JSON array \<^verbatim>\<open>[]\<close> is valid JSON
  without the expected fields, and openWeatherMap fails with a decode error. When both
  answers to darkSky are the object \<^verbatim>\<open>{}\<close>, the decoding succeeds with zero values
  and the provider panics (C9) instead of returning 273.15.
\<close>

theorem missing_fields_counterexample:
  "openWeatherMap_temperature
     \<lparr>http_Get = (\<lambda>url. Inr \<lparr>StatusCode = 200, Body = Json (JArr [])\<rparr>),
      fmt_Sprint = (\<lambda>x. '''')\<rparr>
     \<lparr>owm_apiKey = ''a''\<rparr> ''Oslo'' = Err (UnmarshalTypeError ''array'') \<and>
   darkSky_temperature
     \<lparr>http_Get = (\<lambda>url. Inr \<lparr>StatusCode = 200, Body = Json (JObj [])\<rparr>),
      fmt_Sprint = (\<lambda>x. '''')\<rparr>
     \<lparr>ds_apiKey = ''d'', googleKey = ''g''\<rparr> ''Oslo''
     = Panic ''index out of range [0] with length 0''"
  by (simp add: openWeatherMap_temperature_def darkSky_temperature_def darkSky_getCoords_def
      json_eval)

text \<open>
  C10 (amended). For openWeatherMap and weatherUnderground, a body that is a JSON object in
  which the expected member is missing (no member of the outer name, or that member is
  \<^verbatim>\<open>null\<close> or an object with no member of the inner name) is no decode failure: it
  decodes to zero values and the provider returns 0 (openWeatherMap) or 273.15
  (weatherUnderground) and no error. darkSky does the same with such a body of the
  forecast, returning 273.15, once \<^verbatim>\<open>getCoords\<close> has returned coordinates. A body that
  is valid JSON of another kind (an array, a string, a number, a boolean) is a decode
  failure for openWeatherMap and weatherUnderground.
\<close>

theorem missing_fields_zero_values:
  "(\<forall>resp kvs. http_Get env (owm_url ow city) = Inr resp \<and> Body resp = Json (JObj kvs) \<and>
        lacks_field ''main'' ''temp'' kvs \<longrightarrow>
      openWeatherMap_temperature env ow city = Ok (f64 0)) \<and>
   (\<forall>resp kvs. http_Get env (wu_url wu city) = Inr resp \<and> Body resp = Json (JObj kvs) \<and>
        lacks_field ''current_observation'' ''temp_c'' kvs \<longrightarrow>
      weatherUnderground_temperature env wu city = Ok (f64 (27315 / 100))) \<and>
   (\<forall>lat lon resp kvs. darkSky_getCoords env ds city (googleKey ds) = Ok (lat, lon) \<and>
        http_Get env (ds_url ds (fmt_Sprint env lat) (fmt_Sprint env lon)) = Inr resp \<and>
        Body resp = Json (JObj kvs) \<and> lacks_field ''Currently'' ''Temperature'' kvs \<longrightarrow>
      darkSky_temperature env ds city = Ok (f64 (27315 / 100))) \<and>
   (\<forall>resp j. http_Get env (owm_url ow city) = Inr resp \<and> Body resp = Json j \<and>
        \<not> object_or_null j \<longrightarrow>
      openWeatherMap_temperature env ow city = Err (UnmarshalTypeError (json_kind j))) \<and>
   (\<forall>resp j. http_Get env (wu_url wu city) = Inr resp \<and> Body resp = Json j \<and>
        \<not> object_or_null j \<longrightarrow>
      weatherUnderground_temperature env wu city = Err (UnmarshalTypeError (json_kind j)))"
  apply (intro conjI allI impI)
  subgoal by (simp add: openWeatherMap_temperature_def owm_Decode_def Decode_def lacks_owm)
  subgoal
    by (simp add: weatherUnderground_temperature_def wu_Decode_def Decode_def lacks_wu
        zero_celsius [simplified])
  subgoal
    by (simp add: darkSky_temperature_def ds_Decode_def Decode_def lacks_ds Let_def
        zero_celsius [simplified])
  subgoal for resp j
    by (cases j) (simp_all add: openWeatherMap_temperature_def owm_Decode_def Decode_def)
  subgoal for resp j
    by (cases j) (simp_all add: weatherUnderground_temperature_def wu_Decode_def Decode_def)
  done

text \<open>In the example network both objects lack the temperature.\<close>

theorem missing_fields_zero_values_witness:
  "openWeatherMap_temperature net_no_temperature \<lparr>owm_apiKey = ''a''\<rparr> ''Oslo'' = Ok (f64 0) \<and>
   weatherUnderground_temperature net_no_temperature \<lparr>wu_apiKey = ''b''\<rparr> ''Oslo'' = Ok (f64 (27315 / 100))"
proof -
  let ?ow = "\<lparr>owm_apiKey = ''a''\<rparr>" and ?wu = "\<lparr>wu_apiKey = ''b''\<rparr>"
  let ?k1 = "[(''cod'', JNum False 401), (''message'', JStr ''Invalid API key'')]"
  let ?k2 = "[(''response'', JObj [(''error'', JObj [(''type'', JStr ''keynotfound'')])]),
             (''current_observation'', JObj [(''station_id'', JStr ''X'')])]"
  note t = missing_fields_zero_values [of net_no_temperature ?ow "''Oslo''" ?wu]
  have a: "http_Get net_no_temperature (owm_url ?ow ''Oslo'') = Inr \<lparr>StatusCode = 401, Body = Json (JObj ?k1)\<rparr> \<and>
           Body \<lparr>StatusCode = 401, Body = Json (JObj ?k1)\<rparr> = Json (JObj ?k1) \<and>
           lacks_field ''main'' ''temp'' ?k1"
    by (simp add: net_no_temperature_def url_eval lacks_field_def upper_def)
  have b: "http_Get net_no_temperature (wu_url ?wu ''Oslo'') = Inr \<lparr>StatusCode = 200, Body = Json (JObj ?k2)\<rparr> \<and>
           Body \<lparr>StatusCode = 200, Body = Json (JObj ?k2)\<rparr> = Json (JObj ?k2) \<and>
           lacks_field ''current_observation'' ''temp_c'' ?k2"
    by (simp add: net_no_temperature_def url_eval lacks_field_def no_key_def upper_def)
  note x = t [THEN conjunct1, rule_format, OF a]
  note y = t [THEN conjunct2, THEN conjunct1, rule_format, OF b]
  show ?thesis
    by (intro conjI x y)
qed

section \<open>The sequential operation, proved\<close>

lemma range_providers_all_Ok:
  "\<forall>p \<in> set ps. is_Ok (p city) \<Longrightarrow>
   range_providers city ps called sm
     = (called @ [length called..<length called + length ps],
        Ok (foldl fadd sm (map (\<lambda>p. the_Ok (p city)) ps)))"
proof (induction ps arbitrary: called sm)
  case Nil
  then show ?case by simp
next
  case (Cons p ps)
  from Cons.prems obtain k where k: "p city = Ok k"
    by (cases "p city") auto
  from Cons.prems have "\<forall>p \<in> set ps. is_Ok (p city)" by simp
  from Cons.IH [OF this, of "called @ [length called]" "fadd sm k"] k
  show ?case by (simp del: upt_Suc add: upt_rec [of "length called"])
qed

lemma range_providers_first_Err:
  "i < length ps \<Longrightarrow> \<forall>j < i. is_Ok ((ps ! j) city) \<Longrightarrow> (ps ! i) city = Err e \<Longrightarrow>
   range_providers city ps called sm
     = (called @ [length called..<length called + Suc i], Err e)"
proof (induction ps arbitrary: i called sm)
  case Nil
  then show ?case by simp
next
  case (Cons p ps)
  show ?case
  proof (cases i)
    case 0
    with Cons.prems show ?thesis by (simp del: upt_Suc add: upt_rec [of "length called"])
  next
    case (Suc i')
    with Cons.prems have "is_Ok (p city)" by auto
    then obtain k where k: "p city = Ok k"
      by (cases "p city") auto
    from Suc Cons.prems have a: "i' < length ps" and b: "\<forall>j < i'. is_Ok ((ps ! j) city)"
      and c: "(ps ! i') city = Err e"
      by auto
    from Cons.IH [OF a b c, of "called @ [length called]" "fadd sm k"] k Suc
    show ?thesis by (simp del: upt_Suc add: upt_rec [of "length called"])
  qed
qed

text \<open>
  C8. The sequential \<^verbatim>\<open>temperature(city, providers...)\<close> calls the providers one at
  a time in the order of declaration. When the provider at position \<open>i\<close> is the first
  to fail, it has called the providers \<open>0, \<dots>, i\<close> and no other, and returns that
  provider's error. When all succeed it has called them all and returns the mean of
  their temperatures (float64 sum from the left, divided by their number), with no
  conversion to Fahrenheit.
\<close>

theorem sequential_temperature:
  "(\<forall>i e. i < length providers \<and> (\<forall>j < i. is_Ok ((providers ! j) city)) \<and>
           (providers ! i) city = Err e \<longrightarrow>
      temperature city providers = ([0..<Suc i], Err e)) \<and>
   ((\<forall>p \<in> set providers. is_Ok (p city)) \<longrightarrow>
      temperature city providers
        = ([0..<length providers], Ok (spec_mean (map (\<lambda>p. the_Ok (p city)) providers))))"
proof (intro conjI allI impI)
  fix i e
  assume "i < length providers \<and> (\<forall>j < i. is_Ok ((providers ! j) city)) \<and>
          (providers ! i) city = Err e"
  then have "range_providers city providers [] (f64 0) = ([] @ [length ([] :: nat list)..<length ([] :: nat list) + Suc i], Err e)"
    by (intro range_providers_first_Err) auto
  then show "temperature city providers = ([0..<Suc i], Err e)"
    by (simp add: temperature_def)
next
  assume "\<forall>p \<in> set providers. is_Ok (p city)"
  from range_providers_all_Ok [OF this, of "[]" "f64 0"]
  show "temperature city providers
        = ([0..<length providers], Ok (spec_mean (map (\<lambda>p. the_Ok (p city)) providers)))"
    by (simp add: temperature_def spec_mean_def)
qed

text \<open>A provider after the first failure is not called; one provider at 300 gives 300.\<close>

theorem sequential_temperature_witness:
  "temperature ''Oslo'' [\<lambda>city. Ok (f64 290), \<lambda>city. Err (UrlError ''timeout''),
       \<lambda>city. Err (BodyError ''EOF'')]
     = ([0, 1], Err (UrlError ''timeout'')) \<and>
   temperature ''Oslo'' [\<lambda>city. Ok (f64 300)]
     = ([0], Ok (f64 300))"
proof -
  let ?ps = "[\<lambda>city. Ok (f64 290), \<lambda>city. Err (UrlError ''timeout''),
       \<lambda>city. Err (BodyError ''EOF'')] :: weatherProvider list"
  let ?qs = "[\<lambda>city. Ok (f64 300)] :: weatherProvider list"
  have h: "1 < length ?ps \<and> (\<forall>j < 1. is_Ok ((?ps ! j) ''Oslo'')) \<and>
           (?ps ! 1) ''Oslo'' = Err (UrlError ''timeout'')"
    by simp
  from sequential_temperature [of ?ps "''Oslo''", THEN conjunct1, rule_format, OF h]
  have a: "temperature ''Oslo'' ?ps = ([0, 1], Err (UrlError ''timeout''))"
    by (simp add: upt_conv_Cons)
  have g: "\<forall>p \<in> set ?qs. is_Ok (p ''Oslo'')" by simp
  have m: "spec_mean [f64 300] = f64 300"
    by (simp add: spec_mean_def f64_eval)
  from mp [OF sequential_temperature [of ?qs "''Oslo''", THEN conjunct2] g]
  have b: "temperature ''Oslo'' ?qs = ([0], Ok (f64 300))"
    by (simp add: m)
  show ?thesis
    by (intro conjI a b)
qed

section \<open>The scenario of three providers\<close>

lemma sum_300_310_290:
  "foldl fadd (f64 0) [f64 300, f64 310, f64 290] = Finite False 900"
  "foldl fadd (f64 0) [f64 300, f64 290, f64 310] = Finite False 900"
  "foldl fadd (f64 0) [f64 310, f64 300, f64 290] = Finite False 900"
  "foldl fadd (f64 0) [f64 310, f64 290, f64 300] = Finite False 900"
  "foldl fadd (f64 0) [f64 290, f64 300, f64 310] = Finite False 900"
  "foldl fadd (f64 0) [f64 290, f64 310, f64 300] = Finite False 900"
  by (simp_all add: f64_eval)

lemma report_900:
  "spec_report (fdiv (Finite False 900) (f64_of_nat 3))
     = Finite False (706590152473969 / 8796093022208)"
  by (simp add: spec_report_def f64_eval)


lemma perm3:
  assumes "mset ks = mset [a, b, c]"
  shows "ks \<in> {[a, b, c], [a, c, b], [b, a, c], [b, c, a], [c, a, b], [c, b, a]}"
proof -
  from assms have "length ks = 3"
    by (metis length_Cons list.size(3) numeral_3_eq_3 size_mset)
  then obtain x y z where ks: "ks = [x, y, z]"
    by (auto simp: length_Suc_conv numeral_3_eq_3)
  from assms show ?thesis
    unfolding ks by (auto simp: add_eq_conv_ex)
qed

text \<open>
  C5 (as stated, refuted). For the temperatures 300, 310 and 290 the call returns
  \<open>80.33000000000004\<close>, the float64 \<open>706590152473969 / 2^43\<close>; that is not
  \<open>80.87\<close>. The sum \<open>(300 - 273.15) * 1.8 + 32\<close> is 80.33.
\<close>

theorem three_providers_report_counterexample:
  "multiWeatherProvider_temperature
     [\<lambda>city. Ok (f64 300), \<lambda>city. Ok (f64 310), \<lambda>city. Ok (f64 290)] ''Oslo''
     [Finish 0, Finish 1, Finish 2, RecvTemp, RecvTemp, RecvTemp]
   = Some (Inr (Finite False (706590152473969 / 8796093022208))) \<and>
   Finite False (706590152473969 / 8796093022208) \<noteq> f64 (8087 / 100)"
  by (simp add: run_eval f64_eval)

text \<open>
  C5 (amended). For three providers answering 300, 310 and 290, whatever the call returns
  under a schedule is, with no error, the float64 \<open>706590152473969 / 2^43\<close>, which is
  within \<open>10^-13\<close> of 80.33. (The three sums are exact in every order. A compiler that
  fuses the multiplication and the addition may change the last bits, not the 80.33.)
\<close>

theorem three_providers_report:
  assumes ok: "outcomes w city = map Ok [f64 300, f64 310, f64 290]"
    and r: "multiWeatherProvider_temperature w city sched = Some r"
  shows "r = Inr (Finite False (706590152473969 / 8796093022208)) \<and>
         \<bar>706590152473969 / 8796093022208 - 8033 / 100\<bar> < (1 / 10 ^ 13 :: rat)"
proof -
  define ts where "ts = [f64 300, f64 310, f64 290]"
  from ok have ok': "outcomes w city = map Ok ts"
    by (simp add: ts_def)
  then have len: "length w = length ts"
    by (metis length_map outcomes_def)
  from r obtain s where s: "run (map Ok ts) sched init = Some s"
    and rs: "result (length ts) s = Some r"
    by (auto simp: run_result ok' len)
  define ks where "ks = map (\<lambda>p. ts ! p) (finished s)"
  note a = all_Ok_result [OF reachable_inv [OF s] rs, folded ks_def]
  from a(2) have m: "mset ks = mset [f64 300, f64 310, f64 290]"
    by (simp add: ts_def)
  from perm3 [OF m] have "foldl fadd (f64 0) ks = Finite False 900"
    using sum_300_310_290 by auto
  moreover from m have "length ks = 3"
    by (metis length_Cons list.size(3) numeral_3_eq_3 size_mset)
  ultimately have "spec_mean ks = fdiv (Finite False 900) (f64_of_nat 3)"
    by (simp add: spec_mean_def)
  with a(1) report_900 have "r = Inr (Finite False (706590152473969 / 8796093022208))"
    by simp
  then show ?thesis by simp
qed

theorem three_providers_report_witness:
  "outcomes [\<lambda>city. Ok (f64 300), \<lambda>city. Ok (f64 310), \<lambda>city. Ok (f64 290)] ''Oslo''
     = map Ok [f64 300, f64 310, f64 290] \<and>
   multiWeatherProvider_temperature
     [\<lambda>city. Ok (f64 300), \<lambda>city. Ok (f64 310), \<lambda>city. Ok (f64 290)] ''Oslo''
     [Finish 2, RecvTemp, Finish 0, Finish 1, RecvTemp, RecvTemp]
   = Some (Inr (Finite False (706590152473969 / 8796093022208)))"
proof -
  let ?w = "[\<lambda>city. Ok (f64 300), \<lambda>city. Ok (f64 310), \<lambda>city. Ok (f64 290)]
             :: multiWeatherProvider"
  let ?sched = "[Finish 2, RecvTemp, Finish 0, Finish 1, RecvTemp, RecvTemp]"
  have h: "outcomes ?w ''Oslo'' = map Ok [f64 300, f64 310, f64 290]"
    by (simp add: outcomes_def)
  have "multiWeatherProvider_temperature ?w ''Oslo'' ?sched \<noteq> None"
    by (simp add: run_eval)
  then obtain r where e: "multiWeatherProvider_temperature ?w ''Oslo'' ?sched = Some r"
    by blast
  from h e three_providers_report [OF h e] show ?thesis by blast
qed

section \<open>The empty provider set\<close>

text \<open>
  C2 (as stated, refuted). With no provider the call does not fail: the loop is not
  entered and the call returns at once with no error and the value
  \<^verbatim>\<open>0.0 / float64(0)\<close>, a NaN, carried through the conversion.
\<close>

theorem empty_provider_set_counterexample:
  "multiWeatherProvider_temperature [] ''Oslo'' [] = Some (Inr NaN)"
  by (simp add: run_eval f64_of_nat_def f64_0 to_fahrenheit_NaN)

text \<open>
  C2 (amended). With an empty provider set no event can happen, and the call returns no
  error and the value NaN: the program has no configuration error and no check of
  \<^verbatim>\<open>len(w)\<close>; the division is a float64 division, which does not panic.
\<close>

theorem empty_provider_set:
  "multiWeatherProvider_temperature [] city sched = (if sched = [] then Some (Inr NaN) else None)"
proof (cases sched)
  case Nil
  then show ?thesis
    by (simp add: run_eval f64_of_nat_def f64_0 to_fahrenheit_NaN)
next
  case (Cons ev evs)
  have "step [] ev init = None"
    by (cases ev) (simp_all add: step_def selecting_def init_def)
  with Cons show ?thesis
    by (simp add: multiWeatherProvider_temperature_def outcomes_def)
qed

end
